theory Spec2Isabelle
  imports Main "HOL-Library.Sublist"
begin

section \<open>JavaScript values as the handlers see them\<close>

text \<open>
  The Express handlers of the SEP-10 / SEP-24 demo server read JSON request bodies and
  JSON responses of the anchor. A JSON value is modelled by \<open>jsval\<close>; \<open>JUndefined\<close> is
  the result of reading a property that is not there. Numbers are integers here: the
  handlers only test a number for being zero. Strings are lists of 8-bit characters.
\<close>

datatype jsval =
    JUndefined
  | JNull
  | JBool bool
  | JNum int
  | JStr string
  | JArr "jsval list"
  | JObj "(string \<times> jsval) list"

text \<open>JavaScript truthiness, the test behind \<open>!x\<close>, \<open>if (x)\<close> and \<open>x || y\<close>.\<close>

fun truthy :: "jsval \<Rightarrow> bool" where
  "truthy JUndefined = False"
| "truthy JNull = False"
| "truthy (JBool b) = b"
| "truthy (JNum n) = (n \<noteq> 0)"
| "truthy (JStr s) = (s \<noteq> [])"
| "truthy (JArr xs) = True"
| "truthy (JObj kvs) = True"

text \<open>
  What a \<open>catch (error)\<close> block can receive: an axios error, which has a \<open>response\<close>
  (with its \<open>data\<close>) when the remote server answered with a non-2xx status and none
  when the request never got an answer, or any other exception (a \<open>TypeError\<close>, an
  error thrown by the Stellar SDK), which has a message only.
\<close>

datatype js_error =
    AxiosError "jsval option" string
  | JsError string

text \<open>The expression \<open>error.response?.data || error.message\<close> of every catch block.\<close>

fun error_details :: "js_error \<Rightarrow> jsval" where
  "error_details (AxiosError (Some d) m) = (if truthy d then d else JStr m)"
| "error_details (AxiosError None m) = JStr m"
| "error_details (JsError m) = JStr m"

text \<open>
  The conversion of a value to a string, as a template literal and \<open>new Error(v)\<close>
  perform it, throws a \<open>TypeError\<close> on some values of a JSON document: an object
  with a key \<open>toString\<close> of its own has no callable \<open>toString\<close> (a JSON value is
  never a function) and no \<open>valueOf\<close> that gives a primitive, and an array is
  converted by converting its elements. \<open>convertible v\<close> says that the conversion of
  \<open>v\<close> does not throw.
\<close>

fun convertible :: "jsval \<Rightarrow> bool" where
  "convertible (JArr xs) = (\<forall>x \<in> set xs. convertible x)"
| "convertible (JObj kvs) = (map_of kvs ''toString'' = None)"
| "convertible v = True"

text \<open>
  The values that the log lines of a handler interpolate, in order: logging throws at
  the first value whose conversion throws.
\<close>

fun log_lines :: "jsval list \<Rightarrow> js_error + unit" where
  "log_lines [] = Inr ()"
| "log_lines (v # vs) =
     (if convertible v then log_lines vs
      else Inl (JsError ''Cannot convert object to primitive value''))"

text \<open>
  Reading a property \<open>v.k\<close>. On \<open>undefined\<close> and \<open>null\<close> the read throws a
  \<open>TypeError\<close>; on an object it gives the field or \<open>undefined\<close>; on the other values
  none of the property names this program reads exists, so the read gives \<open>undefined\<close>.
\<close>

fun get_prop :: "jsval \<Rightarrow> string \<Rightarrow> js_error + jsval" where
  "get_prop JUndefined k = Inl (JsError (''Cannot read properties of undefined (reading '' @ k @ '')''))"
| "get_prop JNull k = Inl (JsError (''Cannot read properties of null (reading '' @ k @ '')''))"
| "get_prop (JObj kvs) k = Inr (case map_of kvs k of None \<Rightarrow> JUndefined | Some v \<Rightarrow> v)"
| "get_prop v k = Inr JUndefined"

text \<open>
  Destructuring \<open>const { k } = req.body\<close>: \<open>bodyParser.json()\<close> always leaves
  \<open>req.body\<close> an object, modelled by its list of fields.
\<close>

definition field :: "(string \<times> jsval) list \<Rightarrow> string \<Rightarrow> jsval" where
  "field kvs k = (case map_of kvs k of None \<Rightarrow> JUndefined | Some v \<Rightarrow> v)"

subsection \<open>String methods\<close>

text \<open>\<open>s.includes(t)\<close>: \<open>t\<close> occurs in \<open>s\<close> as a contiguous substring.\<close>

fun str_includes :: "string \<Rightarrow> string \<Rightarrow> bool" where
  "str_includes [] t = (t = [])"
| "str_includes (c # cs) t = (prefix t (c # cs) \<or> str_includes cs t)"

text \<open>\<open>s.startsWith(t)\<close> and \<open>s.substring(n)\<close>.\<close>

definition startsWith :: "string \<Rightarrow> string \<Rightarrow> bool" where
  "startsWith s t = prefix t s"

definition substring :: "string \<Rightarrow> nat \<Rightarrow> string" where
  "substring s n = drop n s"

subsection \<open>The regular expression that reads stellar.toml\<close>

text \<open>
  The class \<open>\s\<close> on characters below 256: tab, line feed, vertical tab, form feed,
  carriage return, space and the no-break space.
\<close>

definition is_space :: "char \<Rightarrow> bool" where
  "is_space c = (of_char c \<in> {9, 10, 11, 12, 13, 32, 160 :: nat})"

definition dquote :: char where
  "dquote = char_of (34 :: nat)"

text \<open>
  \<open>match_here key s\<close>: the expression \<open>/KEY\s*=\s*"([^"]+)"/\<close> matched at the very
  start of \<open>s\<close>; the result is capture group 1. Each greedy repetition is followed by
  a character outside its class, so the backtracking matcher has one way to match only.
\<close>

definition match_here :: "string \<Rightarrow> string \<Rightarrow> string option" where
  "match_here key s =
     (if \<not> prefix key s then None
      else case dropWhile is_space (drop (length key) s) of
        [] \<Rightarrow> None
      | c # r2 \<Rightarrow>
          if c \<noteq> CHR ''='' then None
          else (case dropWhile is_space r2 of
            [] \<Rightarrow> None
          | q # r4 \<Rightarrow>
              if q \<noteq> dquote then None
              else (let v = takeWhile (\<lambda>x. x \<noteq> dquote) r4;
                        r5 = dropWhile (\<lambda>x. x \<noteq> dquote) r4
                    in if v = [] \<or> r5 = [] then None else Some v)))"

text \<open>
  \<open>tomlText.match(/KEY\s*=\s*"([^"]+)"/)\<close> followed by \<open>match[1]\<close>: the leftmost
  position where the expression matches; \<open>None\<close> is the \<open>null\<close> of no match.
\<close>

fun regex_match :: "string \<Rightarrow> string \<Rightarrow> string option" where
  "regex_match key [] = match_here key []"
| "regex_match key (c # cs) =
     (case match_here key (c # cs) of
        Some v \<Rightarrow> Some v
      | None \<Rightarrow> regex_match key cs)"

text \<open>
  \<open>tomlText.match(...)\<close> on the \<open>data\<close> of the directory response: a value that is
  not a string has no \<open>match\<close> method, and the call throws.
\<close>

fun toml_match :: "string \<Rightarrow> jsval \<Rightarrow> js_error + string option" where
  "toml_match key (JStr t) = Inr (regex_match key t)"
| "toml_match key v = Inl (JsError ''tomlText.match is not a function'')"


section \<open>The collaborators outside the repository\<close>

subsection \<open>Configuration\<close>

text \<open>
  The constants read from the environment at start-up. \<open>CLIENT_SIGNING_KEY\<close> is
  \<open>None\<close> when the variable is not set.
\<close>

record config =
  HOME_DOMAIN :: string
  CLIENT_DOMAIN :: string
  CLIENT_SIGNING_KEY :: "string option"

subsection \<open>The signed-transaction envelope\<close>

text \<open>
  Modelled from the spec: the classes \<open>Transaction\<close> and \<open>Keypair\<close> belong to the
  Stellar SDK, which is not part of the sources. Section 2 of the specification gives
  the structural view of a decoded envelope as source account, time bounds, operation
  list and signature list, scoped to a network; a signature is a pair of signer
  identity and signature bytes (section 3, SignatureSet).
\<close>

record decorated_signature =
  sig_signer :: string
  sig_bytes :: string

record transaction =
  tx_networkPassphrase :: jsval
  tx_source :: string
  tx_minTime :: nat
  tx_maxTime :: nat
  tx_operations :: "string list"
  tx_signatures :: "decorated_signature list"

record keypair =
  kp_secret :: string
  kp_publicKey :: string

text \<open>
  Modelled from the spec: section 3 calls a challenge expired once the current time is
  past the not-after bound of its time bounds.
\<close>

definition expired :: "nat \<Rightarrow> transaction \<Rightarrow> bool" where
  "expired now txn = (tx_maxTime txn < now)"

subsection \<open>Remote calls\<close>

text \<open>
  A call made through axios: \<open>axios.get(url, {params, headers})\<close> or
  \<open>axios.post(url, data, {headers})\<close>. Every handler returns, next to its response,
  the list of the calls it made, in order.
\<close>

datatype remote_call =
    AxiosGet string "(string \<times> jsval) list" "(string \<times> string) list"
  | AxiosPost string jsval "(string \<times> string) list"

fun is_post :: "remote_call \<Rightarrow> bool" where
  "is_post (AxiosPost u d h) = True"
| "is_post (AxiosGet u p h) = False"

fun call_headers :: "remote_call \<Rightarrow> (string \<times> string) list" where
  "call_headers (AxiosPost u d h) = h"
| "call_headers (AxiosGet u p h) = h"

text \<open>
  The platform a handler runs on. \<open>axios\<close> answers a call, given the calls made before
  it in the same handler run: \<open>Inr\<close> is the \<open>data\<close> of a 2xx response, \<open>Inl\<close> the error
  the awaited promise rejects with. The other fields are the library functions the
  handlers call: the SDK's network constants, its envelope decoder
  (\<open>new Transaction(envelope, network)\<close>, which throws on a malformed envelope), its
  key loader, the signature a key pair makes over a transaction, and its encoder
  (\<open>toEnvelope().toXDR('base64')\<close>); and two functions of the language itself:
  \<open>encodeURIComponent\<close>, which can throw a \<open>URIError\<close>, and the text that the
  conversion to a string gives for a value that is not a string.
\<close>

record platform =
  axios :: "remote_call list \<Rightarrow> remote_call \<Rightarrow> js_error + jsval"
  encodeURIComponent :: "jsval \<Rightarrow> js_error + string"
  toString :: "jsval \<Rightarrow> string"
  Networks_TESTNET :: string
  Networks_PUBLIC :: string
  Transaction_new :: "jsval \<Rightarrow> jsval \<Rightarrow> js_error + transaction"
  Keypair_fromSecret :: "string \<Rightarrow> js_error + keypair"
  sign_hash :: "keypair \<Rightarrow> transaction \<Rightarrow> string"
  toXDR :: "transaction \<Rightarrow> string"

text \<open>
  Modelled from the spec: \<open>txn.sign(keypair)\<close> is the SDK's; section 4.2
  (appendSignature) has it keep all existing signatures and append the new one, and
  section 8 has the result hold the original signature set plus exactly one new entry.
\<close>

definition sign :: "platform \<Rightarrow> keypair \<Rightarrow> transaction \<Rightarrow> transaction" where
  "sign pf kp txn =
     txn\<lparr>tx_signatures := tx_signatures txn @
       [\<lparr>sig_signer = kp_publicKey kp, sig_bytes = sign_hash pf kp txn\<rparr>]\<rparr>"

text \<open>How many signatures of an envelope are attributed to a given public key.\<close>

definition signatures_by :: "string \<Rightarrow> transaction \<Rightarrow> nat" where
  "signatures_by pk txn = length (filter (\<lambda>s. sig_signer s = pk) (tx_signatures txn))"

text \<open>
  The text of a value inside a template literal, for a value whose conversion does
  not throw: a string stands for itself.
\<close>

fun template :: "platform \<Rightarrow> jsval \<Rightarrow> string" where
  "template pf (JStr s) = s"
| "template pf v = toString pf v"

subsection \<open>Requests and responses of the Express application\<close>

record request =
  req_authorization :: "string option"
  req_body :: "(string \<times> jsval) list"

record response =
  res_status :: nat
  res_body :: jsval

definition json_error :: "nat \<Rightarrow> string \<Rightarrow> response" where
  "json_error code msg = \<lparr>res_status = code, res_body = JObj [(''error'', JStr msg)]\<rparr>"

definition json_ok :: "jsval \<Rightarrow> response" where
  "json_ok v = \<lparr>res_status = 200, res_body = v\<rparr>"

text \<open>The body of every catch block: status 500, the local error text and the details.\<close>

definition catch_response :: "string \<Rightarrow> js_error \<Rightarrow> response" where
  "catch_response msg e =
     \<lparr>res_status = 500,
      res_body = JObj [(''error'', JStr msg), (''details'', error_details e)]\<rparr>"

text \<open>
  How a handler run ends: the handler sent a response, or the \<open>async\<close> handler threw
  outside its \<open>try\<close> block or inside its \<open>catch\<close> block and sent nothing, so that its
  promise rejects with the error.
\<close>

datatype outcome =
    Sent response
  | Unhandled js_error

definition tomlUrl :: "config \<Rightarrow> string" where
  "tomlUrl cfg = HOME_DOMAIN cfg @ ''/.well-known/stellar.toml''"


section \<open>The SEP-10 handlers\<close>

text \<open>
  The repository has two variants of the server, one with the SEP-10 routes only and
  one with the SEP-24 routes as well. Their SEP-10 handlers are the same code; the
  variants differ in the defaults of \<open>HOME_DOMAIN\<close> and \<open>CLIENT_DOMAIN\<close>, which are
  fields of \<open>config\<close> here. Each handler is a function from the request to the
  response it sends and the remote calls it made.

  \<open>axios.get(tomlUrl)\<close> is the directory fetch every handler makes first.
\<close>

definition toml_call :: "config \<Rightarrow> remote_call" where
  "toml_call cfg = AxiosGet (tomlUrl cfg) [] []"

subsection \<open>POST /api/sep10/get-challenge\<close>

text \<open>\<open>axios.get(challengeUrl)\<close>, from the two encoded query parameters.\<close>

definition challenge_call :: "string \<Rightarrow> string \<Rightarrow> string \<Rightarrow> remote_call" where
  "challenge_call webAuthEndpoint account_enc client_domain_enc =
     AxiosGet (webAuthEndpoint @ ''?account='' @ account_enc
                 @ ''&client_domain='' @ client_domain_enc) [] []"

text \<open>
  The handler from the answer to the challenge request on: the log line interpolates
  \<open>data.network_passphrase\<close>, then the response is built.
\<close>

definition challenge_response :: "string \<Rightarrow> jsval \<Rightarrow> js_error + response" where
  "challenge_response webAuthEndpoint data =
     (case get_prop data ''network_passphrase'' of
        Inl e \<Rightarrow> Inl e
      | Inr network_passphrase \<Rightarrow>
          (case log_lines [network_passphrase] of
             Inl e \<Rightarrow> Inl e
           | Inr u \<Rightarrow>
               (case get_prop data ''transaction'' of
                  Inl e \<Rightarrow> Inl e
                | Inr txn \<Rightarrow>
                    Inr (json_ok (JObj [(''transaction'', txn),
                                        (''network_passphrase'', network_passphrase),
                                        (''webAuthEndpoint'', JStr webAuthEndpoint)])))))"

definition get_challenge :: "config \<Rightarrow> platform \<Rightarrow> request \<Rightarrow> response \<times> remote_call list" where
  "get_challenge cfg pf req =
     (let account = field (req_body req) ''account'';
          failed = catch_response ''Failed to get challenge from anchor'';
          c1 = toml_call cfg
      in if \<not> truthy account then (json_error 400 ''Missing required field: account'', [])
      else (case log_lines [account] of
          Inl e \<Rightarrow> (failed e, [])
        | Inr u \<Rightarrow>
        (case axios pf [] c1 of
          Inl e \<Rightarrow> (failed e, [c1])
        | Inr tomlText \<Rightarrow>
            (case toml_match ''WEB_AUTH_ENDPOINT'' tomlText of
              Inl e \<Rightarrow> (failed e, [c1])
            | Inr None \<Rightarrow> (json_error 400 ''WEB_AUTH_ENDPOINT not found in stellar.toml'', [c1])
            | Inr (Some webAuthEndpoint) \<Rightarrow>
                (case encodeURIComponent pf account of
                  Inl e \<Rightarrow> (failed e, [c1])
                | Inr account_enc \<Rightarrow>
                    (case encodeURIComponent pf (JStr (CLIENT_DOMAIN cfg)) of
                      Inl e \<Rightarrow> (failed e, [c1])
                    | Inr client_domain_enc \<Rightarrow>
                        (let c2 = challenge_call webAuthEndpoint account_enc client_domain_enc
                         in (case axios pf [c1] c2 of
                            Inl e \<Rightarrow> (failed e, [c1, c2])
                          | Inr data \<Rightarrow>
                              (case challenge_response webAuthEndpoint data of
                                Inl e \<Rightarrow> (failed e, [c1, c2])
                              | Inr r \<Rightarrow> (r, [c1, c2]))))))))))"

subsection \<open>POST /api/sep10/submit\<close>

text \<open>
  \<open>networkPassphrase.includes(t)\<close>: substring search on a string, membership on an
  array; the other values have no \<open>includes\<close> method.
\<close>

fun js_includes :: "jsval \<Rightarrow> string \<Rightarrow> js_error + bool" where
  "js_includes (JStr s) t = Inr (str_includes s t)"
| "js_includes (JArr xs) t = Inr (JStr t \<in> set xs)"
| "js_includes v t = Inl (JsError ''networkPassphrase.includes is not a function'')"

text \<open>
  The block \<open>// Determine network\<close>, the same in the submit handler and in
  \<open>handleSignAndSubmit\<close> of the front end.
\<close>

definition determine_network :: "platform \<Rightarrow> jsval \<Rightarrow> js_error + jsval" where
  "determine_network pf networkPassphrase =
     (case js_includes networkPassphrase ''Test'' of
        Inl e \<Rightarrow> Inl e
      | Inr in_test \<Rightarrow>
          if in_test then Inr (JStr (Networks_TESTNET pf))
          else (case js_includes networkPassphrase ''Public'' of
             Inl e \<Rightarrow> Inl e
           | Inr in_public \<Rightarrow>
               if in_public then Inr (JStr (Networks_PUBLIC pf))
               else Inr networkPassphrase))"

text \<open>
  The co-signing steps of the handler: determine the network, parse the user-signed
  transaction under it, load the server's key pair, sign. The result is \<open>txn\<close> after
  \<open>txn.sign(serverKeypair)\<close>.
\<close>

definition coSign :: "platform \<Rightarrow> string \<Rightarrow> jsval \<Rightarrow> jsval \<Rightarrow> js_error + transaction" where
  "coSign pf signing_key signedTransaction networkPassphrase =
     (case determine_network pf networkPassphrase of
        Inl e \<Rightarrow> Inl e
      | Inr network \<Rightarrow>
          (case Transaction_new pf signedTransaction network of
             Inl e \<Rightarrow> Inl e
           | Inr txn \<Rightarrow>
               (case Keypair_fromSecret pf signing_key of
                  Inl e \<Rightarrow> Inl e
                | Inr serverKeypair \<Rightarrow> Inr (sign pf serverKeypair txn))))"

text \<open>The test \<open>!CLIENT_SIGNING_KEY\<close>: the variable is unset or empty.\<close>

definition signing_key_of :: "config \<Rightarrow> string option" where
  "signing_key_of cfg =
     (case CLIENT_SIGNING_KEY cfg of
        None \<Rightarrow> None
      | Some k \<Rightarrow> if k = [] then None else Some k)"

text \<open>\<open>axios.post(webAuthEndpoint, {transaction: fullySignedXdr}, {headers})\<close>.\<close>

definition submit_call :: "string \<Rightarrow> string \<Rightarrow> remote_call" where
  "submit_call webAuthEndpoint fullySignedXdr =
     AxiosPost webAuthEndpoint (JObj [(''transaction'', JStr fullySignedXdr)])
       [(''Content-Type'', ''application/json'')]"

definition submit :: "config \<Rightarrow> platform \<Rightarrow> request \<Rightarrow> response \<times> remote_call list" where
  "submit cfg pf req =
     (let signedTransaction = field (req_body req) ''signedTransaction'';
          networkPassphrase = field (req_body req) ''networkPassphrase'';
          failed = catch_response ''Failed to submit transaction'';
          c1 = toml_call cfg
      in if \<not> truthy signedTransaction \<or> \<not> truthy networkPassphrase
         then (json_error 400 ''Missing required fields: signedTransaction, networkPassphrase'', [])
      else (case signing_key_of cfg of
        None \<Rightarrow> (json_error 500 ''CLIENT_SIGNING_KEY not configured on server'', [])
      | Some signing_key \<Rightarrow>
          (case coSign pf signing_key signedTransaction networkPassphrase of
            Inl e \<Rightarrow> (failed e, [])
          | Inr txn \<Rightarrow>
              (case axios pf [] c1 of
                Inl e \<Rightarrow> (failed e, [c1])
              | Inr tomlText \<Rightarrow>
                  (case toml_match ''WEB_AUTH_ENDPOINT'' tomlText of
                    Inl e \<Rightarrow> (failed e, [c1])
                  | Inr None \<Rightarrow> (json_error 400 ''WEB_AUTH_ENDPOINT not found in stellar.toml'', [c1])
                  | Inr (Some webAuthEndpoint) \<Rightarrow>
                      (let c2 = submit_call webAuthEndpoint (toXDR pf txn)
                       in (case axios pf [c1] c2 of
                          Inl e \<Rightarrow> (failed e, [c1, c2])
                        | Inr data \<Rightarrow>
                            (case get_prop data ''token'' of
                              Inl e \<Rightarrow> (failed e, [c1, c2])
                            | Inr token \<Rightarrow>
                                (json_ok (JObj [(''token'', token)]), [c1, c2])))))))))"

section \<open>The SEP-24 handlers\<close>

subsection \<open>The middleware verifyToken\<close>

text \<open>
  \<open>Inl\<close> is the 401 response the middleware sends; \<open>Inr\<close> is \<open>req.jwtToken\<close>, with
  which it calls \<open>next()\<close>.
\<close>

definition verifyToken :: "request \<Rightarrow> response + string" where
  "verifyToken req =
     (case req_authorization req of
        None \<Rightarrow> Inl (json_error 401 ''Missing or invalid Authorization header'')
      | Some authHeader \<Rightarrow>
          if authHeader = [] \<or> \<not> startsWith authHeader ''Bearer ''
          then Inl (json_error 401 ''Missing or invalid Authorization header'')
          else Inr (substring authHeader 7))"

subsection \<open>POST /api/sep24/start\<close>

text \<open>\<open>mode.toUpperCase()\<close> inside the first log line: only a string has the method.\<close>

fun toUpperCase_defined :: "jsval \<Rightarrow> js_error + unit" where
  "toUpperCase_defined (JStr s) = Inr ()"
| "toUpperCase_defined v = Inl (JsError ''mode.toUpperCase is not a function'')"

text \<open>The path the initiation request is posted to.\<close>

definition interactive_endpoint :: "jsval \<Rightarrow> string" where
  "interactive_endpoint mode =
     (if mode = JStr ''deposit'' then ''/transactions/deposit/interactive''
      else ''/transactions/withdraw/interactive'')"

text \<open>The object \<open>params\<close>, the JSON body of the initiation request.\<close>

definition start_params :: "jsval \<Rightarrow> jsval \<Rightarrow> jsval \<Rightarrow> (string \<times> jsval) list" where
  "start_params assetCode account amount =
     [(''asset_code'', assetCode), (''account'', account)]
       @ (if truthy amount then [(''amount'', amount)] else [])"

text \<open>\<open>axios.get(`${transferServer}/info`)\<close> and \<open>axios.post(url, params, {headers})\<close>.\<close>

definition info_call :: "string \<Rightarrow> remote_call" where
  "info_call transferServer = AxiosGet (transferServer @ ''/info'') [] []"

definition interactive_call :: "string \<Rightarrow> string \<Rightarrow> (string \<times> jsval) list \<Rightarrow> string \<Rightarrow> remote_call" where
  "interactive_call transferServer endpoint params jwtToken =
     AxiosPost (transferServer @ endpoint) (JObj params)
       [(''Authorization'', ''Bearer '' @ jwtToken), (''Content-Type'', ''application/json'')]"

text \<open>
  The catch block of the handler: its error text interpolates \<open>req.body.mode\<close>, and
  when that conversion throws, the block throws before it has sent anything.
\<close>

definition start_catch :: "platform \<Rightarrow> jsval \<Rightarrow> js_error \<Rightarrow> outcome" where
  "start_catch pf mode e =
     (if convertible mode
      then Sent (catch_response (''Failed to start '' @ template pf mode) e)
      else Unhandled (JsError ''Cannot convert object to primitive value''))"

text \<open>
  The handler from the answer to the initiation request on: two log lines interpolate
  \<open>data.id\<close> and \<open>data.url\<close>, then the response is built.
\<close>

definition start_response :: "jsval \<Rightarrow> js_error + response" where
  "start_response data =
     (case get_prop data ''id'' of
        Inl e \<Rightarrow> Inl e
      | Inr data_id \<Rightarrow>
          (case log_lines [data_id] of
             Inl e \<Rightarrow> Inl e
           | Inr u \<Rightarrow>
               (case get_prop data ''url'' of
                  Inl e \<Rightarrow> Inl e
                | Inr data_url \<Rightarrow>
                    (case log_lines [data_url] of
                       Inl e \<Rightarrow> Inl e
                     | Inr u' \<Rightarrow>
                         (case get_prop data ''type'' of
                            Inl e \<Rightarrow> Inl e
                          | Inr data_type \<Rightarrow>
                              Inr (json_ok (JObj [(''id'', data_id), (''url'', data_url),
                                                  (''type'', data_type)])))))))"

text \<open>
  The handler after \<open>verifyToken\<close> has called \<open>next()\<close> with \<open>req.jwtToken\<close> set.
  Its first four log lines call \<open>mode.toUpperCase()\<close> and interpolate \<open>assetCode\<close>,
  \<open>amount || 'not specified'\<close> and \<open>account\<close>.
\<close>

definition start_handler :: "config \<Rightarrow> platform \<Rightarrow> string \<Rightarrow> request \<Rightarrow> outcome \<times> remote_call list" where
  "start_handler cfg pf jwtToken req =
     (let mode = field (req_body req) ''mode'';
          assetCode = field (req_body req) ''assetCode'';
          amount = field (req_body req) ''amount'';
          account = field (req_body req) ''account'';
          failed = start_catch pf mode;
          c1 = toml_call cfg
      in if \<not> truthy mode \<or> \<not> truthy assetCode \<or> \<not> truthy account
         then (Sent (json_error 400 ''Missing required fields: mode, assetCode, account''), [])
      else (case toUpperCase_defined mode of
        Inl e \<Rightarrow> (failed e, [])
      | Inr u \<Rightarrow>
        (case log_lines [assetCode, if truthy amount then amount else JStr ''not specified'',
                         account] of
          Inl e \<Rightarrow> (failed e, [])
        | Inr u' \<Rightarrow>
          (case axios pf [] c1 of
            Inl e \<Rightarrow> (failed e, [c1])
          | Inr tomlText \<Rightarrow>
              (case toml_match ''TRANSFER_SERVER_SEP0024'' tomlText of
                Inl e \<Rightarrow> (failed e, [c1])
              | Inr None \<Rightarrow>
                  (Sent (json_error 400 ''TRANSFER_SERVER not found in stellar.toml''), [c1])
              | Inr (Some transferServer) \<Rightarrow>
                  (let c2 = info_call transferServer;
                       c3 = interactive_call transferServer (interactive_endpoint mode)
                              (start_params assetCode account amount) jwtToken
                   in (case axios pf [c1] c2 of
                      Inl e \<Rightarrow> (failed e, [c1, c2])
                    | Inr info \<Rightarrow>
                        (case axios pf [c1, c2] c3 of
                          Inl e \<Rightarrow> (failed e, [c1, c2, c3])
                        | Inr data \<Rightarrow>
                            (case start_response data of
                              Inl e \<Rightarrow> (failed e, [c1, c2, c3])
                            | Inr r \<Rightarrow> (Sent r, [c1, c2, c3]))))))))))"

definition sep24_start :: "config \<Rightarrow> platform \<Rightarrow> request \<Rightarrow> outcome \<times> remote_call list" where
  "sep24_start cfg pf req =
     (case verifyToken req of
        Inl r \<Rightarrow> (Sent r, [])
      | Inr jwtToken \<Rightarrow> start_handler cfg pf jwtToken req)"

subsection \<open>POST /api/sep24/transaction\<close>

text \<open>\<open>axios.get(`${transferServer}/transaction`, {params: {id}, headers})\<close>.\<close>

definition status_call :: "string \<Rightarrow> jsval \<Rightarrow> string \<Rightarrow> remote_call" where
  "status_call transferServer txid jwtToken =
     AxiosGet (transferServer @ ''/transaction'') [(''id'', txid)]
       [(''Authorization'', ''Bearer '' @ jwtToken)]"

text \<open>
  The handler from the answer to the status query on: the log lines interpolate
  \<open>transaction.status\<close> and, when it is truthy, \<open>transaction.message\<close>; then the
  transaction is sent back.
\<close>

definition status_response :: "jsval \<Rightarrow> js_error + response" where
  "status_response data =
     (case get_prop data ''transaction'' of
        Inl e \<Rightarrow> Inl e
      | Inr txn \<Rightarrow>
          (case get_prop txn ''status'' of
             Inl e \<Rightarrow> Inl e
           | Inr st \<Rightarrow>
               (case log_lines [st] of
                  Inl e \<Rightarrow> Inl e
                | Inr u \<Rightarrow>
                    (case get_prop txn ''message'' of
                       Inl e \<Rightarrow> Inl e
                     | Inr msg \<Rightarrow>
                         (case log_lines (if truthy msg then [msg] else []) of
                            Inl e \<Rightarrow> Inl e
                          | Inr u' \<Rightarrow> Inr (json_ok txn))))))"

definition transaction_handler :: "config \<Rightarrow> platform \<Rightarrow> string \<Rightarrow> request \<Rightarrow> response \<times> remote_call list" where
  "transaction_handler cfg pf jwtToken req =
     (let txid = field (req_body req) ''id'';
          failed = catch_response ''Failed to get transaction status'';
          c1 = toml_call cfg
      in if \<not> truthy txid then (json_error 400 ''Missing required field: id'', [])
      else (case log_lines [txid] of
          Inl e \<Rightarrow> (failed e, [])
        | Inr u \<Rightarrow>
        (case axios pf [] c1 of
          Inl e \<Rightarrow> (failed e, [c1])
        | Inr tomlText \<Rightarrow>
            (case toml_match ''TRANSFER_SERVER_SEP0024'' tomlText of
              Inl e \<Rightarrow> (failed e, [c1])
            | Inr None \<Rightarrow> (json_error 400 ''TRANSFER_SERVER not found in stellar.toml'', [c1])
            | Inr (Some transferServer) \<Rightarrow>
                (let c2 = status_call transferServer txid jwtToken
                 in (case axios pf [c1] c2 of
                    Inl e \<Rightarrow> (failed e, [c1, c2])
                  | Inr data \<Rightarrow>
                      (case status_response data of
                        Inl e \<Rightarrow> (failed e, [c1, c2])
                      | Inr r \<Rightarrow> (r, [c1, c2]))))))))"

definition sep24_transaction :: "config \<Rightarrow> platform \<Rightarrow> request \<Rightarrow> response \<times> remote_call list" where
  "sep24_transaction cfg pf req =
     (case verifyToken req of
        Inl r \<Rightarrow> (r, [])
      | Inr jwtToken \<Rightarrow> transaction_handler cfg pf jwtToken req)"

subsection \<open>A failed remote call\<close>

text \<open>
  The last call of a handler run was answered with the error \<open>e\<close>: the history passed
  to \<open>axios\<close> is the calls before it.
\<close>

definition last_call_failed :: "platform \<Rightarrow> remote_call list \<Rightarrow> js_error \<Rightarrow> bool" where
  "last_call_failed pf calls e =
     (calls \<noteq> [] \<and> axios pf (butlast calls) (last calls) = Inl e)"

section \<open>The front end: checkTransactionStatus\<close>

text \<open>
  The part of the component's state that \<open>checkTransactionStatus\<close> writes.
  \<open>sep24Step\<close> indexes the progress display: 3 is the monitoring step and 4 is the
  final step.
\<close>

record sep24_state =
  sep24Loading :: bool
  sep24Error :: string
  sep24Step :: nat
  transactionStatus :: jsval

text \<open>
  What \<open>await fetch(...)\<close> and \<open>await response.json()\<close> can give: the fetch rejects
  with a message, or there is a response with its \<open>ok\<close> flag and the outcome of
  parsing its body (\<open>Inl\<close> the message of the parse error). For a response that is
  not ok the handler throws \<open>new Error(errData.error || ...)\<close>, whose message is the
  conversion of that value to a string.
\<close>

datatype fetch_outcome =
    FetchRejected string
  | FetchResponse bool "string + jsval"

fun message_of :: "js_error \<Rightarrow> string" where
  "message_of (AxiosError d m) = m"
| "message_of (JsError m) = m"

definition checkTransactionStatus :: "platform \<Rightarrow> fetch_outcome \<Rightarrow> sep24_state \<Rightarrow> sep24_state" where
  "checkTransactionStatus pf outcome st =
     (let st1 = st\<lparr>sep24Loading := True, sep24Error := []\<rparr>;
          st2 = (case outcome of
            FetchRejected m \<Rightarrow> st1\<lparr>sep24Error := m\<rparr>
          | FetchResponse ok parsed \<Rightarrow>
              (case parsed of
                Inl m \<Rightarrow> st1\<lparr>sep24Error := m\<rparr>
              | Inr data \<Rightarrow>
                  if \<not> ok then
                    (case get_prop data ''error'' of
                      Inl e \<Rightarrow> st1\<lparr>sep24Error := message_of e\<rparr>
                    | Inr err \<Rightarrow>
                        st1\<lparr>sep24Error :=
                          (if \<not> truthy err then ''Failed to get transaction status''
                           else if convertible err then template pf err
                           else ''Cannot convert object to primitive value'')\<rparr>)
                  else
                    (case get_prop data ''status'' of
                      Inl e \<Rightarrow> st1\<lparr>transactionStatus := data, sep24Error := message_of e\<rparr>
                    | Inr status \<Rightarrow>
                        if status = JStr ''completed''
                        then st1\<lparr>transactionStatus := data, sep24Step := 4\<rparr>
                        else st1\<lparr>transactionStatus := data, sep24Step := 3\<rparr>)))
      in st2\<lparr>sep24Loading := False\<rparr>)"

section \<open>A concrete anchor, for evaluating the handlers\<close>

text \<open>
  A server configuration, a stellar.toml and an anchor that answers every call the
  handlers make. The envelope codec of this platform knows the envelopes of
  \<open>demo_envelopes\<close>; its network constants are the SDK's.
\<close>

definition demo_cfg :: config where
  "demo_cfg = \<lparr>HOME_DOMAIN = ''https://anchor.test'', CLIENT_DOMAIN = ''client.test'',
                CLIENT_SIGNING_KEY = Some ''SERVERSECRET''\<rparr>"

definition toml_line :: "string \<Rightarrow> string \<Rightarrow> string" where
  "toml_line key v = key @ '' = '' @ [dquote] @ v @ [dquote] @ [char_of (10 :: nat)]"

definition demo_toml :: string where
  "demo_toml = toml_line ''WEB_AUTH_ENDPOINT'' ''https://anchor.test/auth''
             @ toml_line ''TRANSFER_SERVER_SEP0024'' ''https://anchor.test/sep24''"

definition demo_challenge :: transaction where
  "demo_challenge =
     \<lparr>tx_networkPassphrase = JStr ''Test SDF Network ; September 2015'',
      tx_source = ''GANCHOR'', tx_minTime = 1000, tx_maxTime = 1900,
      tx_operations = [''manage_data web_auth_domain''],
      tx_signatures = [\<lparr>sig_signer = ''GANCHOR'', sig_bytes = ''sig:anchor''\<rparr>,
                       \<lparr>sig_signer = ''GSUBJECT'', sig_bytes = ''sig:subject''\<rparr>]\<rparr>"

text \<open>The same challenge, already bearing a signature of the server's key.\<close>

definition demo_cosigned :: transaction where
  "demo_cosigned =
     demo_challenge\<lparr>tx_signatures := tx_signatures demo_challenge @
       [\<lparr>sig_signer = ''GSERVER'', sig_bytes = ''sig:GSERVER''\<rparr>]\<rparr>"

text \<open>The challenge as the anchor issued it, before the subject signed.\<close>

definition demo_unsigned :: transaction where
  "demo_unsigned =
     demo_challenge\<lparr>tx_signatures := [\<lparr>sig_signer = ''GANCHOR'', sig_bytes = ''sig:anchor''\<rparr>]\<rparr>"

text \<open>The envelopes the demo codec decodes.\<close>

definition demo_envelopes :: "(string \<times> transaction) list" where
  "demo_envelopes = [(''AAAAsubject'', demo_challenge), (''AAAAcosigned'', demo_cosigned),
                     (''AAAAchallenge'', demo_unsigned)]"

definition demo_decode :: "jsval \<Rightarrow> jsval \<Rightarrow> js_error + transaction" where
  "demo_decode envelope network =
     (case envelope of
        JStr x \<Rightarrow>
          (case map_of demo_envelopes x of
             Some txn \<Rightarrow> Inr (txn\<lparr>tx_networkPassphrase := network\<rparr>)
           | None \<Rightarrow> Inl (JsError ''XDR Read Error''))
      | _ \<Rightarrow> Inl (JsError ''XDR Read Error''))"

definition demo_encode :: "transaction \<Rightarrow> string" where
  "demo_encode txn = concat (map (\<lambda>s. sig_signer s @ '';'') (tx_signatures txn))"

text \<open>
  The anchor: \<open>verdict\<close> is its answer to the last call of a flow (the challenge
  request, the submission, the initiation or the status query), \<open>toml\<close> the
  directory document it publishes.
\<close>

definition demo_axios :: "jsval \<Rightarrow> js_error + jsval \<Rightarrow> remote_call list \<Rightarrow> remote_call \<Rightarrow> js_error + jsval" where
  "demo_axios toml verdict history c =
     (if c = AxiosGet ''https://anchor.test/.well-known/stellar.toml'' [] [] then Inr toml
      else if c = AxiosGet ''https://anchor.test/sep24/info'' [] [] then Inr (JObj [])
      else verdict)"

text \<open>
  The demo's conversions to a string; they are applied to strings, booleans and objects
  only. Its \<open>encodeURIComponent\<close> leaves a string as it is, which is what the real one
  does on the unreserved characters the demo uses.
\<close>

definition demo_toString :: "jsval \<Rightarrow> string" where
  "demo_toString v =
     (case v of
        JStr s \<Rightarrow> s
      | JBool b \<Rightarrow> (if b then ''true'' else ''false'')
      | JNull \<Rightarrow> ''null''
      | JUndefined \<Rightarrow> ''undefined''
      | _ \<Rightarrow> ''[object Object]'')"

definition demo_fromSecret :: "string \<Rightarrow> js_error + keypair" where
  "demo_fromSecret s =
     (if s = ''SERVERSECRET'' then Inr \<lparr>kp_secret = ''SERVERSECRET'', kp_publicKey = ''GSERVER''\<rparr>
      else Inl (JsError ''invalid encoded string''))"

definition demo_platform :: "jsval \<Rightarrow> js_error + jsval \<Rightarrow> platform" where
  "demo_platform toml verdict =
     \<lparr>axios = demo_axios toml verdict,
      encodeURIComponent = (\<lambda>v. Inr (demo_toString v)),
      toString = demo_toString,
      Networks_TESTNET = ''Test SDF Network ; September 2015'',
      Networks_PUBLIC = ''Public Global Stellar Network ; September 2015'',
      Transaction_new = demo_decode,
      Keypair_fromSecret = demo_fromSecret,
      sign_hash = (\<lambda>kp txn. ''sig:'' @ kp_publicKey kp @ ''/''
                                 @ demo_toString (tx_networkPassphrase txn)),
      toXDR = demo_encode\<rparr>"

text \<open>The front-end state after the interactive URL has been received, before the first poll.\<close>

definition awaiting_interaction :: sep24_state where
  "awaiting_interaction =
     \<lparr>sep24Loading = False, sep24Error = [], sep24Step = 2, transactionStatus = JNull\<rparr>"

text \<open>Requests and anchor answers used below.\<close>

definition demo_keypair :: keypair where
  "demo_keypair = \<lparr>kp_secret = ''SERVERSECRET'', kp_publicKey = ''GSERVER''\<rparr>"

definition demo_submit_request :: request where
  "demo_submit_request =
     \<lparr>req_authorization = None,
      req_body = [(''signedTransaction'', JStr ''AAAAsubject''),
                  (''networkPassphrase'', JStr ''Test SDF Network ; September 2015'')]\<rparr>"

definition demo_resubmit_request :: request where
  "demo_resubmit_request =
     \<lparr>req_authorization = None,
      req_body = [(''signedTransaction'', JStr ''AAAAcosigned''),
                  (''networkPassphrase'', JStr ''Test SDF Network ; September 2015'')]\<rparr>"

definition demo_unsigned_request :: request where
  "demo_unsigned_request =
     \<lparr>req_authorization = None,
      req_body = [(''signedTransaction'', JStr ''AAAAchallenge''),
                  (''networkPassphrase'', JStr ''Test SDF Network ; September 2015'')]\<rparr>"

definition demo_challenge_request :: request where
  "demo_challenge_request = \<lparr>req_authorization = None, req_body = [(''account'', JStr ''GSUBJECT'')]\<rparr>"

definition demo_status_request :: request where
  "demo_status_request = \<lparr>req_authorization = Some ''Bearer jwt'', req_body = [(''id'', JStr ''tx1'')]\<rparr>"

text \<open>A rejection by the anchor: status 400 with a JSON payload.\<close>

definition demo_payload :: jsval where
  "demo_payload = JObj [(''error'', JStr ''invalid signature'')]"

definition demo_rejection :: "js_error + jsval" where
  "demo_rejection = Inl (AxiosError (Some demo_payload) ''Request failed with status code 400'')"



definition demo_token :: "js_error + jsval" where
  "demo_token = Inr (JObj [(''token'', JStr ''jwt'')])"

definition demo_start_request :: "jsval \<Rightarrow> jsval \<Rightarrow> request" where
  "demo_start_request mode amount =
     \<lparr>req_authorization = Some ''Bearer jwt'',
      req_body = [(''mode'', mode), (''assetCode'', JStr ''USDC''),
                  (''amount'', amount), (''account'', JStr ''GSUBJECT'')]\<rparr>"

definition demo_session :: "js_error + jsval" where
  "demo_session = Inr (JObj [(''id'', JStr ''tx1''), (''url'', JStr ''https://anchor.test/i/tx1''),
                             (''type'', JStr ''interactive_customer_info_needed'')])"

text \<open>
  A directory document in which the transfer-endpoint key stands in a comment line
  only, and the request that polls with a token.
\<close>

definition newline :: char where
  "newline = char_of (10 :: nat)"


definition demo_futurenet_request :: request where
  "demo_futurenet_request =
     \<lparr>req_authorization = None,
      req_body = [(''signedTransaction'', JStr ''AAAAsubject''),
                  (''networkPassphrase'', JStr ''Test SDF Future Network ; October 2022'')]\<rparr>"

definition demo_status :: "js_error + jsval" where
  "demo_status = Inr (JObj [(''transaction'',
                    JObj [(''id'', JStr ''tx1''), (''status'', JStr ''incomplete'')])])"

section \<open>The keys a directory document publishes\<close>

text \<open>
  Modelled from the spec: section 6 has a domain publish each endpoint under a fixed
  key of its directory document and speaks of the absence of a key; the format of the
  document is not part of the sources. The document is the file \<open>stellar.toml\<close>:
  it publishes a key by a line that, after leading white space, starts with the key,
  followed by an equals sign; a line that starts with \<open>#\<close> is a comment and
  publishes nothing.
\<close>

fun split_lines :: "string \<Rightarrow> string list" where
  "split_lines [] = [[]]"
| "split_lines (c # cs) =
     (if c = newline then [] # split_lines cs
      else (case split_lines cs of
              [] \<Rightarrow> [[c]]
            | l # ls \<Rightarrow> (c # l) # ls))"

definition line_publishes :: "string \<Rightarrow> string \<Rightarrow> bool" where
  "line_publishes key line =
     (let l = dropWhile is_space line
      in prefix key l \<and>
         (case dropWhile is_space (drop (length key) l) of
            [] \<Rightarrow> False
          | c # r \<Rightarrow> c = CHR ''=''))"

definition publishes_key :: "string \<Rightarrow> string \<Rightarrow> bool" where
  "publishes_key doc key = list_ex (line_publishes key) (split_lines doc)"

section \<open>The string functions meet their descriptions\<close>

text \<open>\<open>str_includes\<close> is the substring relation.\<close>

lemma str_includes_iff_sublist: "str_includes s t \<longleftrightarrow> sublist t s"
proof (induction s)
  case Nil
  then show ?case by simp
next
  case (Cons c cs)
  have "sublist t (c # cs) \<longleftrightarrow> prefix t (c # cs) \<or> sublist t cs"
    by (rule sublist_Cons_right)
  with Cons show ?case by simp
qed


lemma not_space_eq: "\<not> is_space CHR ''=''"
  by (simp add: is_space_def)

lemma not_space_dquote: "\<not> is_space dquote"
  by (simp add: is_space_def dquote_def)

text \<open>
  \<open>match_here\<close> succeeds exactly on the texts that begin with a word of the regular
  expression: the key, white space, an equals sign, white space, and a non-empty run
  of characters other than the double quote between two double quotes; its result is
  that run.
\<close>

lemma match_here_sound:
  assumes "match_here key s = Some v"
  shows "\<exists>ws1 ws2 rest. s = key @ ws1 @ ''='' @ ws2 @ [dquote] @ v @ [dquote] @ rest
           \<and> (\<forall>c \<in> set ws1. is_space c) \<and> (\<forall>c \<in> set ws2. is_space c)
           \<and> v \<noteq> [] \<and> dquote \<notin> set v"
proof -
  from assms obtain r1 where s: "s = key @ r1"
    by (auto simp: match_here_def prefix_def split: if_splits)
  from assms s obtain r2 where r1: "dropWhile is_space r1 = CHR ''='' # r2"
    by (auto simp: match_here_def split: if_splits list.splits)
  from assms s r1 obtain r4 where r2: "dropWhile is_space r2 = dquote # r4"
    by (auto simp: match_here_def split: if_splits list.splits)
  from assms s r1 r2 have v: "v = takeWhile (\<lambda>x. x \<noteq> dquote) r4" "v \<noteq> []"
      and r5: "dropWhile (\<lambda>x. x \<noteq> dquote) r4 \<noteq> []"
    by (auto simp: match_here_def Let_def split: if_splits)
  from r5 have "hd (dropWhile (\<lambda>x. x \<noteq> dquote) r4) = dquote"
    using hd_dropWhile [of "\<lambda>x. x \<noteq> dquote" r4] by simp
  with r5 obtain rest where rest: "dropWhile (\<lambda>x. x \<noteq> dquote) r4 = dquote # rest"
    by (cases "dropWhile (\<lambda>x. x \<noteq> dquote) r4") auto
  have e1: "r1 = takeWhile is_space r1 @ CHR ''='' # r2"
    using takeWhile_dropWhile_id [of is_space r1] r1 by simp
  have e2: "r2 = takeWhile is_space r2 @ dquote # r4"
    using takeWhile_dropWhile_id [of is_space r2] r2 by simp
  have e3: "r4 = v @ dquote # rest"
    using takeWhile_dropWhile_id [of "\<lambda>x. x \<noteq> dquote" r4] rest v by simp
  have "s = key @ takeWhile is_space r1 @ ''='' @ takeWhile is_space r2 @ [dquote] @ v @ [dquote] @ rest"
    using s e1 e2 e3 by simp
  moreover have "\<forall>c \<in> set (takeWhile is_space r1). is_space c"
    by (auto dest: set_takeWhileD)
  moreover have "\<forall>c \<in> set (takeWhile is_space r2). is_space c"
    by (auto dest: set_takeWhileD)
  moreover have "dquote \<notin> set v"
    unfolding v by (auto dest: set_takeWhileD)
  ultimately show ?thesis using v(2) by blast
qed

lemma match_here_complete:
  assumes "s = key @ ws1 @ ''='' @ ws2 @ [dquote] @ v @ [dquote] @ rest"
    and "\<forall>c \<in> set ws1. is_space c" and "\<forall>c \<in> set ws2. is_space c"
    and "v \<noteq> []" and "dquote \<notin> set v"
  shows "match_here key s = Some v"
proof -
  have d1: "dropWhile is_space (ws1 @ CHR ''='' # ws2 @ dquote # v @ dquote # rest)
              = CHR ''='' # ws2 @ dquote # v @ dquote # rest"
    using assms(2) not_space_eq by (simp add: dropWhile_append2)
  have d2: "dropWhile is_space (ws2 @ dquote # v @ dquote # rest) = dquote # v @ dquote # rest"
    using assms(3) not_space_dquote by (simp add: dropWhile_append2)
  have t: "takeWhile (\<lambda>x. x \<noteq> dquote) (v @ dquote # rest) = v"
    using assms(5) by (induction v) auto
  have d3: "dropWhile (\<lambda>x. x \<noteq> dquote) (v @ dquote # rest) = dquote # rest"
    using assms(5) by (induction v) auto
  show ?thesis
    using assms(1,4) d1 d2 t d3 by (simp add: match_here_def)
qed




section \<open>Terminal detection when polling (C2)\<close>

text \<open>
  C2, as the specification states it: a status poll moves the session to the terminal
  state if and only if the returned status is \<open>completed\<close> or \<open>error\<close>. The front end
  does not do that for \<open>error\<close>: a poll that returns the status \<open>error\<close> leaves the
  session at step 3, the monitoring step, and not at the final step 4.
\<close>

theorem poll_error_status_counterexample:
  "sep24Step (checkTransactionStatus (demo_platform JNull (Inr JNull))
      (FetchResponse True (Inr (JObj [(''id'', JStr ''tx1''), (''status'', JStr ''error'')])))
      awaiting_interaction) = 3"
  by (simp add: checkTransactionStatus_def awaiting_interaction_def)

text \<open>
  C2, amended: for every successful poll whose body has a readable \<open>status\<close>, the
  session is at the final step 4 afterwards if and only if the status is the string
  \<open>completed\<close>, and at the monitoring step 3 if and only if it is anything else,
  \<open>error\<close> included.
\<close>

theorem poll_terminal_iff_completed:
  assumes "get_prop data ''status'' = Inr status"
  shows "(sep24Step (checkTransactionStatus pf (FetchResponse True (Inr data)) st) = 4
            \<longleftrightarrow> status = JStr ''completed'')
       \<and> (sep24Step (checkTransactionStatus pf (FetchResponse True (Inr data)) st) = 3
            \<longleftrightarrow> status \<noteq> JStr ''completed'')"
  using assms by (simp add: checkTransactionStatus_def Let_def)

theorem poll_terminal_iff_completed_witness:
  "sep24Step (checkTransactionStatus (demo_platform JNull (Inr JNull))
      (FetchResponse True (Inr (JObj [(''id'', JStr ''tx1''), (''status'', JStr ''completed'')])))
      awaiting_interaction) = 4
   \<and> sep24Step (checkTransactionStatus (demo_platform JNull (Inr JNull))
      (FetchResponse True (Inr (JObj [(''id'', JStr ''tx1''), (''status'', JStr ''pending_anchor'')])))
      awaiting_interaction) = 3"
proof -
  have a: "get_prop (JObj [(''id'', JStr ''tx1''), (''status'', JStr ''completed'')]) ''status''
             = Inr (JStr ''completed'')"
    by simp
  have b: "get_prop (JObj [(''id'', JStr ''tx1''), (''status'', JStr ''pending_anchor'')]) ''status''
             = Inr (JStr ''pending_anchor'')"
    by simp
  show ?thesis
    using poll_terminal_iff_completed [OF a] poll_terminal_iff_completed [OF b] by simp
qed

section \<open>Facts about the submit handler and the concrete anchor\<close>

lemma coSign_Inr:
  assumes "determine_network pf np = Inr network"
    and "Transaction_new pf st network = Inr txn"
    and "Keypair_fromSecret pf k = Inr kp"
  shows "coSign pf k st np = Inr (sign pf kp txn)"
  using assms by (simp add: coSign_def)

lemma coSign_InrD:
  assumes "coSign pf k st np = Inr txn'"
  shows "\<exists>network txn kp. determine_network pf np = Inr network
           \<and> Transaction_new pf st network = Inr txn
           \<and> Keypair_fromSecret pf k = Inr kp \<and> txn' = sign pf kp txn"
  using assms by (auto simp: coSign_def split: sum.splits)

text \<open>Once the envelope is co-signed and the auth endpoint resolved, the anchor decides.\<close>

lemma submit_after_coSign:
  assumes "truthy (field (req_body req) ''signedTransaction'')"
    and "truthy (field (req_body req) ''networkPassphrase'')"
    and "signing_key_of cfg = Some k"
    and "coSign pf k (field (req_body req) ''signedTransaction'')
           (field (req_body req) ''networkPassphrase'') = Inr txn"
    and "axios pf [] (toml_call cfg) = Inr tomlText"
    and "toml_match ''WEB_AUTH_ENDPOINT'' tomlText = Inr (Some ep)"
  shows "submit cfg pf req =
           (case axios pf [toml_call cfg] (submit_call ep (toXDR pf txn)) of
              Inl e \<Rightarrow> (catch_response ''Failed to submit transaction'' e,
                        [toml_call cfg, submit_call ep (toXDR pf txn)])
            | Inr data \<Rightarrow>
                (case get_prop data ''token'' of
                   Inl e \<Rightarrow> (catch_response ''Failed to submit transaction'' e,
                             [toml_call cfg, submit_call ep (toXDR pf txn)])
                 | Inr token \<Rightarrow> (json_ok (JObj [(''token'', token)]),
                             [toml_call cfg, submit_call ep (toXDR pf txn)])))"
  using assms by (simp add: submit_def Let_def)

lemma demo_toml_auth:
  "toml_match ''WEB_AUTH_ENDPOINT'' (JStr demo_toml) = Inr (Some ''https://anchor.test/auth'')"
  by code_simp

lemma demo_toml_transfer:
  "toml_match ''TRANSFER_SERVER_SEP0024'' (JStr demo_toml) = Inr (Some ''https://anchor.test/sep24'')"
  by code_simp

lemma demo_toml_call:
  "toml_call demo_cfg = AxiosGet ''https://anchor.test/.well-known/stellar.toml'' [] []"
  by (simp add: toml_call_def tomlUrl_def demo_cfg_def)

lemma demo_axios_toml: "axios (demo_platform toml verdict) [] (toml_call demo_cfg) = Inr toml"
  by (simp add: demo_platform_def demo_axios_def demo_toml_call)

lemma demo_signing_key: "signing_key_of demo_cfg = Some ''SERVERSECRET''"
  by (simp add: signing_key_of_def demo_cfg_def)

lemma demo_fromSecret_server:
  "Keypair_fromSecret (demo_platform toml verdict) ''SERVERSECRET'' = Inr demo_keypair"
  by (simp add: demo_platform_def demo_fromSecret_def demo_keypair_def)

section \<open>Expiry at co-sign time (C1)\<close>

text \<open>
  C1, as the specification states it: a submit request whose envelope has a not-after
  bound earlier than the current time fails locally with ChallengeExpired, and no
  submission call reaches the Verifier. The handler has no expiry check. Here the
  envelope \<open>AAAAsubject\<close> decodes to a challenge whose not-after bound is 1900; at
  time 2000 it is expired, and the handler still co-signs it, posts it to the auth
  endpoint and answers 200 with the token the anchor returned.
\<close>

theorem submit_expired_counterexample:
  "demo_decode (JStr ''AAAAsubject'') (JStr ''Test SDF Network ; September 2015'') = Inr demo_challenge
   \<and> expired 2000 demo_challenge
   \<and> submit demo_cfg (demo_platform (JStr demo_toml) demo_token) demo_submit_request =
     (\<lparr>res_status = 200, res_body = JObj [(''token'', JStr ''jwt'')]\<rparr>,
      [AxiosGet ''https://anchor.test/.well-known/stellar.toml'' [] [],
       AxiosPost ''https://anchor.test/auth''
         (JObj [(''transaction'', JStr ''GANCHOR;GSUBJECT;GSERVER;'')])
         [(''Content-Type'', ''application/json'')]])"
proof -
  have a: "demo_decode (JStr ''AAAAsubject'') (JStr ''Test SDF Network ; September 2015'')
             = Inr demo_challenge"
    by code_simp
  have b: "expired 2000 demo_challenge"
    by (simp add: expired_def demo_challenge_def)
  have c: "submit demo_cfg (demo_platform (JStr demo_toml) demo_token) demo_submit_request =
     (\<lparr>res_status = 200, res_body = JObj [(''token'', JStr ''jwt'')]\<rparr>,
      [AxiosGet ''https://anchor.test/.well-known/stellar.toml'' [] [],
       AxiosPost ''https://anchor.test/auth''
         (JObj [(''transaction'', JStr ''GANCHOR;GSUBJECT;GSERVER;'')])
         [(''Content-Type'', ''application/json'')]])"
    by code_simp
  from a b c show ?thesis by (intro conjI)
qed

text \<open>
  C1, amended: the submit handler makes no local expiry check. For every request whose
  envelope parses, expired or not, with the signing key configured and the auth
  endpoint advertised, the handler co-signs the envelope and makes exactly one
  submission call, carrying the co-signed envelope; its response is the token when the
  Verifier accepts, and status 500 with the error of the call otherwise. Rejecting an
  expired challenge is left to the Verifier.
\<close>

theorem submit_ignores_expiry:
  assumes "truthy (field (req_body req) ''signedTransaction'')"
    and "truthy (field (req_body req) ''networkPassphrase'')"
    and "signing_key_of cfg = Some k"
    and "determine_network pf (field (req_body req) ''networkPassphrase'') = Inr network"
    and "Transaction_new pf (field (req_body req) ''signedTransaction'') network = Inr txn"
    and "Keypair_fromSecret pf k = Inr kp"
    and "axios pf [] (toml_call cfg) = Inr tomlText"
    and "toml_match ''WEB_AUTH_ENDPOINT'' tomlText = Inr (Some ep)"
    and "expired now txn"
  shows "snd (submit cfg pf req) = [toml_call cfg, submit_call ep (toXDR pf (sign pf kp txn))]
       \<and> fst (submit cfg pf req) =
           (case axios pf [toml_call cfg] (submit_call ep (toXDR pf (sign pf kp txn))) of
              Inl e \<Rightarrow> catch_response ''Failed to submit transaction'' e
            | Inr data \<Rightarrow>
                (case get_prop data ''token'' of
                   Inl e \<Rightarrow> catch_response ''Failed to submit transaction'' e
                 | Inr token \<Rightarrow> json_ok (JObj [(''token'', token)])))"
proof -
  have "coSign pf k (field (req_body req) ''signedTransaction'')
          (field (req_body req) ''networkPassphrase'') = Inr (sign pf kp txn)"
    using assms(4-6) by (rule coSign_Inr)
  from submit_after_coSign [OF assms(1-3) this assms(7,8)]
  show ?thesis by (simp split: sum.splits)
qed

theorem submit_ignores_expiry_witness:
  "expired 2000 demo_challenge \<and>
   snd (submit demo_cfg (demo_platform (JStr demo_toml) demo_token) demo_submit_request) =
     [AxiosGet ''https://anchor.test/.well-known/stellar.toml'' [] [],
      AxiosPost ''https://anchor.test/auth''
        (JObj [(''transaction'', JStr ''GANCHOR;GSUBJECT;GSERVER;'')])
        [(''Content-Type'', ''application/json'')]]"
proof -
  let ?pf = "demo_platform (JStr demo_toml) demo_token"
  have h1: "truthy (field (req_body demo_submit_request) ''signedTransaction'')"
    by (simp add: demo_submit_request_def field_def)
  have h2: "truthy (field (req_body demo_submit_request) ''networkPassphrase'')"
    by (simp add: demo_submit_request_def field_def)
  have h4: "determine_network ?pf (field (req_body demo_submit_request) ''networkPassphrase'')
              = Inr (JStr ''Test SDF Network ; September 2015'')"
    by code_simp
  have h5: "Transaction_new ?pf (field (req_body demo_submit_request) ''signedTransaction'')
              (JStr ''Test SDF Network ; September 2015'') = Inr demo_challenge"
    by code_simp
  have h9: "expired 2000 demo_challenge"
    by (simp add: expired_def demo_challenge_def)
  have enc: "submit_call ''https://anchor.test/auth'' (toXDR ?pf (sign ?pf demo_keypair demo_challenge))
               = AxiosPost ''https://anchor.test/auth''
                   (JObj [(''transaction'', JStr ''GANCHOR;GSUBJECT;GSERVER;'')])
                   [(''Content-Type'', ''application/json'')]"
    by code_simp
  have "snd (submit demo_cfg ?pf demo_submit_request) =
          [toml_call demo_cfg,
           submit_call ''https://anchor.test/auth'' (toXDR ?pf (sign ?pf demo_keypair demo_challenge))]"
    using submit_ignores_expiry [OF h1 h2 demo_signing_key h4 h5 demo_fromSecret_server
        demo_axios_toml demo_toml_auth h9]
    by (rule conjunct1)
  with h9 show ?thesis
    by (simp only: enc demo_toml_call simp_thms)
qed

section \<open>The dual-signature invariant (C3)\<close>

lemma signatures_by_sign:
  "signatures_by (kp_publicKey kp) (sign pf kp txn) = Suc (signatures_by (kp_publicKey kp) txn)"
  by (simp add: signatures_by_def sign_def)

lemma submit_post_cosigned:
  assumes "AxiosPost u d h \<in> set (snd (submit cfg pf req))"
  shows "\<exists>k txn'. signing_key_of cfg = Some k
           \<and> coSign pf k (field (req_body req) ''signedTransaction'')
                (field (req_body req) ''networkPassphrase'') = Inr txn'
           \<and> d = JObj [(''transaction'', JStr (toXDR pf txn'))]"
  using assms
  by (auto simp: submit_def Let_def submit_call_def toml_call_def
           split: if_splits option.splits sum.splits)

text \<open>
  C3, as the specification states it: co-signing an envelope that already bears a
  signature of the Origin's key is a no-op or an error, so that no envelope with two
  Origin signatures is produced, and only envelopes with both a Subject and an Origin
  signature are submitted. The handler checks neither. The envelope \<open>AAAAcosigned\<close>
  already bears one signature of the server's key \<open>GSERVER\<close>: co-signing succeeds, the
  result bears two, and it is posted to the anchor. The envelope \<open>AAAAchallenge\<close>
  bears no signature of the subject \<open>GSUBJECT\<close>: it is co-signed and posted as well.
\<close>

theorem coSign_twice_counterexample:
  "demo_decode (JStr ''AAAAcosigned'') (JStr ''Test SDF Network ; September 2015'') = Inr demo_cosigned
   \<and> signatures_by ''GSERVER'' demo_cosigned = 1
   \<and> coSign (demo_platform (JStr demo_toml) demo_token) ''SERVERSECRET'' (JStr ''AAAAcosigned'')
        (JStr ''Test SDF Network ; September 2015'')
       = Inr (sign (demo_platform (JStr demo_toml) demo_token) demo_keypair demo_cosigned)
   \<and> signatures_by ''GSERVER''
        (sign (demo_platform (JStr demo_toml) demo_token) demo_keypair demo_cosigned) = 2
   \<and> submit demo_cfg (demo_platform (JStr demo_toml) demo_token) demo_resubmit_request =
     (\<lparr>res_status = 200, res_body = JObj [(''token'', JStr ''jwt'')]\<rparr>,
      [AxiosGet ''https://anchor.test/.well-known/stellar.toml'' [] [],
       AxiosPost ''https://anchor.test/auth''
         (JObj [(''transaction'', JStr ''GANCHOR;GSUBJECT;GSERVER;GSERVER;'')])
         [(''Content-Type'', ''application/json'')]])
   \<and> demo_decode (JStr ''AAAAchallenge'') (JStr ''Test SDF Network ; September 2015'') = Inr demo_unsigned
   \<and> signatures_by ''GSUBJECT'' demo_unsigned = 0
   \<and> submit demo_cfg (demo_platform (JStr demo_toml) demo_token) demo_unsigned_request =
     (\<lparr>res_status = 200, res_body = JObj [(''token'', JStr ''jwt'')]\<rparr>,
      [AxiosGet ''https://anchor.test/.well-known/stellar.toml'' [] [],
       AxiosPost ''https://anchor.test/auth''
         (JObj [(''transaction'', JStr ''GANCHOR;GSERVER;'')])
         [(''Content-Type'', ''application/json'')]])"
proof -
  let ?pf = "demo_platform (JStr demo_toml) demo_token"
  have a: "demo_decode (JStr ''AAAAcosigned'') (JStr ''Test SDF Network ; September 2015'')
             = Inr demo_cosigned"
    by code_simp
  have b: "signatures_by ''GSERVER'' demo_cosigned = 1"
    by code_simp
  have c: "coSign ?pf ''SERVERSECRET'' (JStr ''AAAAcosigned'') (JStr ''Test SDF Network ; September 2015'')
       = Inr (sign ?pf demo_keypair demo_cosigned)"
    by code_simp
  have d: "signatures_by ''GSERVER'' (sign ?pf demo_keypair demo_cosigned) = 2"
    by code_simp
  have e: "submit demo_cfg ?pf demo_resubmit_request =
     (\<lparr>res_status = 200, res_body = JObj [(''token'', JStr ''jwt'')]\<rparr>,
      [AxiosGet ''https://anchor.test/.well-known/stellar.toml'' [] [],
       AxiosPost ''https://anchor.test/auth''
         (JObj [(''transaction'', JStr ''GANCHOR;GSUBJECT;GSERVER;GSERVER;'')])
         [(''Content-Type'', ''application/json'')]])"
    by code_simp
  have f: "demo_decode (JStr ''AAAAchallenge'') (JStr ''Test SDF Network ; September 2015'')
             = Inr demo_unsigned"
    by code_simp
  have g: "signatures_by ''GSUBJECT'' demo_unsigned = 0"
    by code_simp
  have h: "submit demo_cfg ?pf demo_unsigned_request =
     (\<lparr>res_status = 200, res_body = JObj [(''token'', JStr ''jwt'')]\<rparr>,
      [AxiosGet ''https://anchor.test/.well-known/stellar.toml'' [] [],
       AxiosPost ''https://anchor.test/auth''
         (JObj [(''transaction'', JStr ''GANCHOR;GSERVER;'')])
         [(''Content-Type'', ''application/json'')]])"
    by code_simp
  from a b c d e f g h show ?thesis by (intro conjI)
qed

text \<open>
  C3, amended: co-signing is neither a no-op nor an error on any envelope that parses.
  For every request whose envelope parses, whatever signatures it bears, with the
  signing key configured and the auth endpoint advertised, the co-signing step succeeds
  with the parsed envelope plus exactly one signature of the Origin's key appended
  last, so an envelope with n signatures of that key comes out with n + 1, and the
  number of signatures of every other key, the Subject's included, is left as it was;
  that result is what the handler submits, in exactly one submission call.
\<close>

theorem coSign_appends_unconditionally:
  assumes "truthy (field (req_body req) ''signedTransaction'')"
    and "truthy (field (req_body req) ''networkPassphrase'')"
    and "signing_key_of cfg = Some k"
    and "determine_network pf (field (req_body req) ''networkPassphrase'') = Inr network"
    and "Transaction_new pf (field (req_body req) ''signedTransaction'') network = Inr txn"
    and "Keypair_fromSecret pf k = Inr kp"
    and "axios pf [] (toml_call cfg) = Inr tomlText"
    and "toml_match ''WEB_AUTH_ENDPOINT'' tomlText = Inr (Some ep)"
  shows "coSign pf k (field (req_body req) ''signedTransaction'')
           (field (req_body req) ''networkPassphrase'') = Inr (sign pf kp txn)
       \<and> tx_signatures (sign pf kp txn) =
           tx_signatures txn @ [\<lparr>sig_signer = kp_publicKey kp, sig_bytes = sign_hash pf kp txn\<rparr>]
       \<and> signatures_by (kp_publicKey kp) (sign pf kp txn)
           = Suc (signatures_by (kp_publicKey kp) txn)
       \<and> (\<forall>pk. pk \<noteq> kp_publicKey kp \<longrightarrow>
             signatures_by pk (sign pf kp txn) = signatures_by pk txn)
       \<and> snd (submit cfg pf req) = [toml_call cfg, submit_call ep (toXDR pf (sign pf kp txn))]"
proof -
  have c: "coSign pf k (field (req_body req) ''signedTransaction'')
          (field (req_body req) ''networkPassphrase'') = Inr (sign pf kp txn)"
    using assms(4-6) by (rule coSign_Inr)
  have s: "snd (submit cfg pf req) = [toml_call cfg, submit_call ep (toXDR pf (sign pf kp txn))]"
    using submit_after_coSign [OF assms(1-3) c assms(7,8)] by (simp split: sum.splits)
  have a: "tx_signatures (sign pf kp txn) =
           tx_signatures txn @ [\<lparr>sig_signer = kp_publicKey kp, sig_bytes = sign_hash pf kp txn\<rparr>]"
    by (simp add: sign_def)
  have o: "\<forall>pk. pk \<noteq> kp_publicKey kp \<longrightarrow>
             signatures_by pk (sign pf kp txn) = signatures_by pk txn"
    by (simp add: signatures_by_def sign_def)
  from c a signatures_by_sign o s show ?thesis by blast
qed

theorem coSign_appends_unconditionally_witness:
  "signatures_by ''GSERVER'' demo_cosigned = 1
   \<and> coSign (demo_platform (JStr demo_toml) demo_token) ''SERVERSECRET''
        (field (req_body demo_resubmit_request) ''signedTransaction'')
        (field (req_body demo_resubmit_request) ''networkPassphrase'')
       = Inr (sign (demo_platform (JStr demo_toml) demo_token) demo_keypair demo_cosigned)
   \<and> signatures_by ''GSERVER''
        (sign (demo_platform (JStr demo_toml) demo_token) demo_keypair demo_cosigned) = 2
   \<and> snd (submit demo_cfg (demo_platform (JStr demo_toml) demo_token) demo_resubmit_request) =
       [AxiosGet ''https://anchor.test/.well-known/stellar.toml'' [] [],
        AxiosPost ''https://anchor.test/auth''
          (JObj [(''transaction'', JStr ''GANCHOR;GSUBJECT;GSERVER;GSERVER;'')])
          [(''Content-Type'', ''application/json'')]]
   \<and> signatures_by ''GSUBJECT'' demo_unsigned = 0
   \<and> signatures_by ''GSUBJECT''
        (sign (demo_platform (JStr demo_toml) demo_token) demo_keypair demo_unsigned) = 0
   \<and> snd (submit demo_cfg (demo_platform (JStr demo_toml) demo_token) demo_unsigned_request) =
       [AxiosGet ''https://anchor.test/.well-known/stellar.toml'' [] [],
        AxiosPost ''https://anchor.test/auth''
          (JObj [(''transaction'', JStr ''GANCHOR;GSERVER;'')])
          [(''Content-Type'', ''application/json'')]]"
proof -
  let ?pf = "demo_platform (JStr demo_toml) demo_token"
  let ?net = "JStr ''Test SDF Network ; September 2015''"
  have pk: "kp_publicKey demo_keypair = ''GSERVER''"
    by (simp add: demo_keypair_def)
  have n1: "signatures_by ''GSERVER'' demo_cosigned = 1"
    by code_simp
  have n0: "signatures_by ''GSUBJECT'' demo_unsigned = 0"
    by code_simp
  have ne: "''GSUBJECT'' \<noteq> kp_publicKey demo_keypair"
    by (simp add: pk)
  have a1: "truthy (field (req_body demo_resubmit_request) ''signedTransaction'')"
    and a2: "truthy (field (req_body demo_resubmit_request) ''networkPassphrase'')"
    by (simp_all add: demo_resubmit_request_def field_def)
  have a4: "determine_network ?pf (field (req_body demo_resubmit_request) ''networkPassphrase'')
              = Inr ?net"
    by code_simp
  have a5: "Transaction_new ?pf (field (req_body demo_resubmit_request) ''signedTransaction'') ?net
              = Inr demo_cosigned"
    by code_simp
  have e1: "submit_call ''https://anchor.test/auth'' (toXDR ?pf (sign ?pf demo_keypair demo_cosigned))
               = AxiosPost ''https://anchor.test/auth''
                   (JObj [(''transaction'', JStr ''GANCHOR;GSUBJECT;GSERVER;GSERVER;'')])
                   [(''Content-Type'', ''application/json'')]"
    by code_simp
  note r1 = coSign_appends_unconditionally [OF a1 a2 demo_signing_key a4 a5
      demo_fromSecret_server demo_axios_toml demo_toml_auth]
  have c1: "coSign ?pf ''SERVERSECRET''
        (field (req_body demo_resubmit_request) ''signedTransaction'')
        (field (req_body demo_resubmit_request) ''networkPassphrase'')
       = Inr (sign ?pf demo_keypair demo_cosigned)"
    using r1 by blast
  have c2: "signatures_by ''GSERVER'' (sign ?pf demo_keypair demo_cosigned) = 2"
    using r1 n1 by (simp add: pk)
  have c3: "snd (submit demo_cfg ?pf demo_resubmit_request) =
       [AxiosGet ''https://anchor.test/.well-known/stellar.toml'' [] [],
        AxiosPost ''https://anchor.test/auth''
          (JObj [(''transaction'', JStr ''GANCHOR;GSUBJECT;GSERVER;GSERVER;'')])
          [(''Content-Type'', ''application/json'')]]"
    using r1 by (simp only: e1 demo_toml_call)
  have b1: "truthy (field (req_body demo_unsigned_request) ''signedTransaction'')"
    and b2: "truthy (field (req_body demo_unsigned_request) ''networkPassphrase'')"
    by (simp_all add: demo_unsigned_request_def field_def)
  have b4: "determine_network ?pf (field (req_body demo_unsigned_request) ''networkPassphrase'')
              = Inr ?net"
    by code_simp
  have b5: "Transaction_new ?pf (field (req_body demo_unsigned_request) ''signedTransaction'') ?net
              = Inr demo_unsigned"
    by code_simp
  have e2: "submit_call ''https://anchor.test/auth'' (toXDR ?pf (sign ?pf demo_keypair demo_unsigned))
               = AxiosPost ''https://anchor.test/auth''
                   (JObj [(''transaction'', JStr ''GANCHOR;GSERVER;'')])
                   [(''Content-Type'', ''application/json'')]"
    by code_simp
  note r2 = coSign_appends_unconditionally [OF b1 b2 demo_signing_key b4 b5
      demo_fromSecret_server demo_axios_toml demo_toml_auth]
  have d1: "signatures_by ''GSUBJECT'' (sign ?pf demo_keypair demo_unsigned) = 0"
    using r2 ne n0 by simp
  have d2: "snd (submit demo_cfg ?pf demo_unsigned_request) =
       [AxiosGet ''https://anchor.test/.well-known/stellar.toml'' [] [],
        AxiosPost ''https://anchor.test/auth''
          (JObj [(''transaction'', JStr ''GANCHOR;GSERVER;'')])
          [(''Content-Type'', ''application/json'')]]"
    using r2 by (simp only: e2 demo_toml_call)
  from n1 c1 c2 c3 n0 d1 d2 show ?thesis by (intro conjI)
qed

section \<open>The network passphrase through co-signing (C4)\<close>

text \<open>
  C4, as the specification states it: the network context used to parse and to sign
  the envelope is string-equal to the passphrase the caller supplied, for every
  passphrase. The handler replaces a passphrase that contains \<open>Test\<close> by the SDK's
  test network constant. The passphrase of the Futurenet network contains \<open>Test\<close>:
  submitted with it, the envelope is parsed under the passphrase of the Testnet (the
  decoder of the concrete platform records the network it is given, and would have
  recorded the Futurenet passphrase had it been given that), the server's signature is
  made over the envelope in that network, and this is the envelope that is posted.
\<close>

theorem futurenet_counterexample:
  "field (req_body demo_futurenet_request) ''networkPassphrase''
     = JStr ''Test SDF Future Network ; October 2022''
   \<and> Transaction_new (demo_platform (JStr demo_toml) demo_token) (JStr ''AAAAsubject'')
        (JStr ''Test SDF Future Network ; October 2022'')
       = Inr (demo_challenge\<lparr>tx_networkPassphrase := JStr ''Test SDF Future Network ; October 2022''\<rparr>)
   \<and> coSign (demo_platform (JStr demo_toml) demo_token) ''SERVERSECRET''
        (field (req_body demo_futurenet_request) ''signedTransaction'')
        (field (req_body demo_futurenet_request) ''networkPassphrase'')
       = Inr (demo_challenge\<lparr>tx_signatures := tx_signatures demo_challenge @
                [\<lparr>sig_signer = ''GSERVER'',
                  sig_bytes = ''sig:GSERVER/Test SDF Network ; September 2015''\<rparr>]\<rparr>)
   \<and> tx_networkPassphrase demo_challenge = JStr ''Test SDF Network ; September 2015''
   \<and> submit demo_cfg (demo_platform (JStr demo_toml) demo_token) demo_futurenet_request =
     (\<lparr>res_status = 200, res_body = JObj [(''token'', JStr ''jwt'')]\<rparr>,
      [AxiosGet ''https://anchor.test/.well-known/stellar.toml'' [] [],
       AxiosPost ''https://anchor.test/auth''
         (JObj [(''transaction'', JStr ''GANCHOR;GSUBJECT;GSERVER;'')])
         [(''Content-Type'', ''application/json'')]])"
proof -
  let ?pf = "demo_platform (JStr demo_toml) demo_token"
  have a: "field (req_body demo_futurenet_request) ''networkPassphrase''
     = JStr ''Test SDF Future Network ; October 2022''"
    by code_simp
  have b: "Transaction_new ?pf (JStr ''AAAAsubject'') (JStr ''Test SDF Future Network ; October 2022'')
       = Inr (demo_challenge\<lparr>tx_networkPassphrase := JStr ''Test SDF Future Network ; October 2022''\<rparr>)"
    by code_simp
  have c: "coSign ?pf ''SERVERSECRET''
        (field (req_body demo_futurenet_request) ''signedTransaction'')
        (field (req_body demo_futurenet_request) ''networkPassphrase'')
       = Inr (demo_challenge\<lparr>tx_signatures := tx_signatures demo_challenge @
                [\<lparr>sig_signer = ''GSERVER'',
                  sig_bytes = ''sig:GSERVER/Test SDF Network ; September 2015''\<rparr>]\<rparr>)"
    by code_simp
  have d: "tx_networkPassphrase demo_challenge = JStr ''Test SDF Network ; September 2015''"
    by code_simp
  have e: "submit demo_cfg ?pf demo_futurenet_request =
     (\<lparr>res_status = 200, res_body = JObj [(''token'', JStr ''jwt'')]\<rparr>,
      [AxiosGet ''https://anchor.test/.well-known/stellar.toml'' [] [],
       AxiosPost ''https://anchor.test/auth''
         (JObj [(''transaction'', JStr ''GANCHOR;GSUBJECT;GSERVER;'')])
         [(''Content-Type'', ''application/json'')]])"
    by code_simp
  from a b c d e show ?thesis by (intro conjI)
qed

text \<open>
  C4, amended: the network context under which the envelope is parsed and signed is
  derived from the supplied passphrase. For a passphrase that is a non-empty string,
  it is the SDK's constant \<open>Networks.TESTNET\<close> when the string contains \<open>Test\<close>,
  otherwise the constant \<open>Networks.PUBLIC\<close> when the string contains \<open>Public\<close>, and
  only otherwise the string itself: the handler parses the envelope under that network,
  signs the result of that parse, and submits the signed result.
\<close>

theorem network_replaced_when_marked:
  assumes "truthy (field (req_body req) ''signedTransaction'')"
    and "field (req_body req) ''networkPassphrase'' = JStr p" and "p \<noteq> []"
    and "signing_key_of cfg = Some k"
    and "network = (if str_includes p ''Test'' then Networks_TESTNET pf
                    else if str_includes p ''Public'' then Networks_PUBLIC pf
                    else p)"
    and "Transaction_new pf (field (req_body req) ''signedTransaction'') (JStr network) = Inr txn"
    and "Keypair_fromSecret pf k = Inr kp"
    and "axios pf [] (toml_call cfg) = Inr tomlText"
    and "toml_match ''WEB_AUTH_ENDPOINT'' tomlText = Inr (Some ep)"
  shows "determine_network pf (JStr p) = Inr (JStr network)
       \<and> coSign pf k (field (req_body req) ''signedTransaction'') (JStr p) = Inr (sign pf kp txn)
       \<and> snd (submit cfg pf req) = [toml_call cfg, submit_call ep (toXDR pf (sign pf kp txn))]"
proof -
  have d: "determine_network pf (JStr p) = Inr (JStr network)"
    using assms(5) by (simp add: determine_network_def)
  have c: "coSign pf k (field (req_body req) ''signedTransaction'') (JStr p) = Inr (sign pf kp txn)"
    using d assms(6,7) by (rule coSign_Inr)
  have t: "truthy (field (req_body req) ''networkPassphrase'')"
    using assms(2,3) by simp
  have c': "coSign pf k (field (req_body req) ''signedTransaction'')
              (field (req_body req) ''networkPassphrase'') = Inr (sign pf kp txn)"
    using c assms(2) by simp
  have "snd (submit cfg pf req) = [toml_call cfg, submit_call ep (toXDR pf (sign pf kp txn))]"
    using submit_after_coSign [OF assms(1) t assms(4) c' assms(8,9)]
    by (simp split: sum.splits)
  with d c show ?thesis by blast
qed

theorem network_replaced_when_marked_witness:
  "str_includes ''Test SDF Future Network ; October 2022'' ''Test''
   \<and> coSign (demo_platform (JStr demo_toml) demo_token) ''SERVERSECRET''
        (field (req_body demo_futurenet_request) ''signedTransaction'')
        (JStr ''Test SDF Future Network ; October 2022'')
       = Inr (sign (demo_platform (JStr demo_toml) demo_token) demo_keypair demo_challenge)
   \<and> tx_networkPassphrase
        (sign (demo_platform (JStr demo_toml) demo_token) demo_keypair demo_challenge)
       = JStr ''Test SDF Network ; September 2015''
   \<and> \<not> str_includes ''Standalone Network ; February 2017'' ''Test''
   \<and> \<not> str_includes ''Standalone Network ; February 2017'' ''Public''
   \<and> coSign (demo_platform (JStr demo_toml) demo_token) ''SERVERSECRET''
        (JStr ''AAAAsubject'') (JStr ''Standalone Network ; February 2017'')
       = Inr (sign (demo_platform (JStr demo_toml) demo_token) demo_keypair
           (demo_challenge\<lparr>tx_networkPassphrase := JStr ''Standalone Network ; February 2017''\<rparr>))"
proof -
  let ?pf = "demo_platform (JStr demo_toml) demo_token"
  let ?fut = "''Test SDF Future Network ; October 2022''"
  let ?alone = "''Standalone Network ; February 2017''"
  let ?req2 = "\<lparr>req_authorization = None,
      req_body = [(''signedTransaction'', JStr ''AAAAsubject''),
                  (''networkPassphrase'', JStr ?alone)]\<rparr>"
  have t: "str_includes ?fut ''Test''"
    by code_simp
  have s1: "\<not> str_includes ?alone ''Test''" and s2: "\<not> str_includes ?alone ''Public''"
    by code_simp+
  have a1: "truthy (field (req_body demo_futurenet_request) ''signedTransaction'')"
    by (simp add: demo_futurenet_request_def field_def)
  have a2: "field (req_body demo_futurenet_request) ''networkPassphrase'' = JStr ?fut"
    by (simp add: demo_futurenet_request_def field_def)
  have a5: "''Test SDF Network ; September 2015'' =
      (if str_includes ?fut ''Test'' then Networks_TESTNET ?pf
       else if str_includes ?fut ''Public'' then Networks_PUBLIC ?pf else ?fut)"
    using t by (simp add: demo_platform_def)
  have a6: "Transaction_new ?pf (field (req_body demo_futurenet_request) ''signedTransaction'')
              (JStr ''Test SDF Network ; September 2015'') = Inr demo_challenge"
    by code_simp
  have r1: "coSign ?pf ''SERVERSECRET''
        (field (req_body demo_futurenet_request) ''signedTransaction'') (JStr ?fut)
       = Inr (sign ?pf demo_keypair demo_challenge)"
    using network_replaced_when_marked [OF a1 a2 _ demo_signing_key a5 a6
        demo_fromSecret_server demo_axios_toml demo_toml_auth]
    by simp
  have n: "tx_networkPassphrase (sign ?pf demo_keypair demo_challenge)
       = JStr ''Test SDF Network ; September 2015''"
    by (simp add: sign_def demo_challenge_def)
  have b1: "truthy (field (req_body ?req2) ''signedTransaction'')"
    by (simp add: field_def)
  have b2: "field (req_body ?req2) ''networkPassphrase'' = JStr ?alone"
    by (simp add: field_def)
  have b5: "?alone =
      (if str_includes ?alone ''Test'' then Networks_TESTNET ?pf
       else if str_includes ?alone ''Public'' then Networks_PUBLIC ?pf else ?alone)"
    using s1 s2 by simp
  have b6: "Transaction_new ?pf (field (req_body ?req2) ''signedTransaction'') (JStr ?alone)
              = Inr (demo_challenge\<lparr>tx_networkPassphrase := JStr ?alone\<rparr>)"
    by code_simp
  have r2: "coSign ?pf ''SERVERSECRET'' (JStr ''AAAAsubject'') (JStr ?alone)
       = Inr (sign ?pf demo_keypair (demo_challenge\<lparr>tx_networkPassphrase := JStr ?alone\<rparr>))"
    using network_replaced_when_marked [OF b1 b2 _ demo_signing_key b5 b6
        demo_fromSecret_server demo_axios_toml demo_toml_auth]
    by (simp add: field_def)
  from t r1 n s1 s2 r2 show ?thesis by (intro conjI)
qed

section \<open>Rejections by the Verifier (C5)\<close>

text \<open>A handler whose last remote call failed answers with its catch block.\<close>

lemma get_challenge_failed:
  assumes "last_call_failed pf (snd (get_challenge cfg pf req)) e"
  shows "fst (get_challenge cfg pf req) = catch_response ''Failed to get challenge from anchor'' e"
  using assms
  by (auto simp: last_call_failed_def get_challenge_def Let_def
           split: if_splits sum.splits option.splits)

lemma submit_failed:
  assumes "last_call_failed pf (snd (submit cfg pf req)) e"
  shows "fst (submit cfg pf req) = catch_response ''Failed to submit transaction'' e"
  using assms
  by (auto simp: last_call_failed_def submit_def Let_def
           split: if_splits sum.splits option.splits)

lemma toUpperCase_convertible: "toUpperCase_defined mode = Inr u \<Longrightarrow> convertible mode"
  by (cases mode) simp_all

lemma start_handler_failed:
  assumes "last_call_failed pf (snd (start_handler cfg pf tok req)) e"
  shows "fst (start_handler cfg pf tok req)
           = Sent (catch_response
                (''Failed to start '' @ template pf (field (req_body req) ''mode'')) e)"
  using assms
  by (auto simp: last_call_failed_def start_handler_def Let_def start_catch_def
                 toUpperCase_convertible
           split: if_splits sum.splits option.splits)

lemma transaction_handler_failed:
  assumes "last_call_failed pf (snd (transaction_handler cfg pf tok req)) e"
  shows "fst (transaction_handler cfg pf tok req)
           = catch_response ''Failed to get transaction status'' e"
  using assms
  by (auto simp: last_call_failed_def transaction_handler_def Let_def
           split: if_splits sum.splits option.splits)

lemma sep24_start_failed:
  assumes "last_call_failed pf (snd (sep24_start cfg pf req)) e"
  shows "fst (sep24_start cfg pf req)
           = Sent (catch_response
                (''Failed to start '' @ template pf (field (req_body req) ''mode'')) e)"
  using assms start_handler_failed
  by (auto simp: sep24_start_def last_call_failed_def split: sum.splits)

lemma sep24_transaction_failed:
  assumes "last_call_failed pf (snd (sep24_transaction cfg pf req)) e"
  shows "fst (sep24_transaction cfg pf req)
           = catch_response ''Failed to get transaction status'' e"
  using assms transaction_handler_failed
  by (auto simp: sep24_transaction_def last_call_failed_def split: sum.splits)

lemma catch_response_payload:
  "catch_response kind (AxiosError (Some payload) msg) =
     \<lparr>res_status = 500,
      res_body = JObj [(''error'', JStr kind),
                       (''details'', if truthy payload then payload else JStr msg)]\<rparr>"
  by (simp add: catch_response_def)

text \<open>
  C5, as the specification states it: for every call the Verifier rejects, the error
  returned to the caller carries the Verifier's raw response payload verbatim. The
  catch blocks compute \<open>error.response?.data || error.message\<close>, so a payload that is
  falsy is replaced by the message of the transport error: when the anchor rejects the
  submission with status 403 and an empty body, or with the JSON body \<open>false\<close>, the
  details are the text \<open>Request failed with status code 403\<close>.
\<close>

theorem falsy_payload_counterexample:
  "submit demo_cfg
     (demo_platform (JStr demo_toml)
        (Inl (AxiosError (Some (JStr [])) ''Request failed with status code 403'')))
     demo_submit_request =
     (\<lparr>res_status = 500,
       res_body = JObj [(''error'', JStr ''Failed to submit transaction''),
                        (''details'', JStr ''Request failed with status code 403'')]\<rparr>,
      [AxiosGet ''https://anchor.test/.well-known/stellar.toml'' [] [],
       AxiosPost ''https://anchor.test/auth''
         (JObj [(''transaction'', JStr ''GANCHOR;GSUBJECT;GSERVER;'')])
         [(''Content-Type'', ''application/json'')]])
   \<and> submit demo_cfg
     (demo_platform (JStr demo_toml)
        (Inl (AxiosError (Some (JBool False)) ''Request failed with status code 403'')))
     demo_submit_request =
     (\<lparr>res_status = 500,
       res_body = JObj [(''error'', JStr ''Failed to submit transaction''),
                        (''details'', JStr ''Request failed with status code 403'')]\<rparr>,
      [AxiosGet ''https://anchor.test/.well-known/stellar.toml'' [] [],
       AxiosPost ''https://anchor.test/auth''
         (JObj [(''transaction'', JStr ''GANCHOR;GSUBJECT;GSERVER;'')])
         [(''Content-Type'', ''application/json'')]])"
proof -
  have a: "submit demo_cfg
     (demo_platform (JStr demo_toml)
        (Inl (AxiosError (Some (JStr [])) ''Request failed with status code 403'')))
     demo_submit_request =
     (\<lparr>res_status = 500,
       res_body = JObj [(''error'', JStr ''Failed to submit transaction''),
                        (''details'', JStr ''Request failed with status code 403'')]\<rparr>,
      [AxiosGet ''https://anchor.test/.well-known/stellar.toml'' [] [],
       AxiosPost ''https://anchor.test/auth''
         (JObj [(''transaction'', JStr ''GANCHOR;GSUBJECT;GSERVER;'')])
         [(''Content-Type'', ''application/json'')]])"
    by code_simp
  have b: "submit demo_cfg
     (demo_platform (JStr demo_toml)
        (Inl (AxiosError (Some (JBool False)) ''Request failed with status code 403'')))
     demo_submit_request =
     (\<lparr>res_status = 500,
       res_body = JObj [(''error'', JStr ''Failed to submit transaction''),
                        (''details'', JStr ''Request failed with status code 403'')]\<rparr>,
      [AxiosGet ''https://anchor.test/.well-known/stellar.toml'' [] [],
       AxiosPost ''https://anchor.test/auth''
         (JObj [(''transaction'', JStr ''GANCHOR;GSUBJECT;GSERVER;'')])
         [(''Content-Type'', ''application/json'')]])"
    by code_simp
  from a b show ?thesis by (intro conjI)
qed

text \<open>
  C5, amended: in each of the four handlers, when the last remote call is rejected with
  a response, the caller gets status 500, the handler's own error text, and as details
  the response payload verbatim whenever that payload is truthy (a non-empty string, an
  object, an array, a non-zero number or \<open>true\<close>); for a falsy payload the details are
  the message of the transport error.
\<close>

theorem rejection_payload_in_details:
  "(last_call_failed pf (snd (get_challenge cfg pf req)) (AxiosError (Some payload) msg) \<longrightarrow>
      fst (get_challenge cfg pf req) =
        \<lparr>res_status = 500,
         res_body = JObj [(''error'', JStr ''Failed to get challenge from anchor''),
                          (''details'', if truthy payload then payload else JStr msg)]\<rparr>)
 \<and> (last_call_failed pf (snd (submit cfg pf req)) (AxiosError (Some payload) msg) \<longrightarrow>
      fst (submit cfg pf req) =
        \<lparr>res_status = 500,
         res_body = JObj [(''error'', JStr ''Failed to submit transaction''),
                          (''details'', if truthy payload then payload else JStr msg)]\<rparr>)
 \<and> (last_call_failed pf (snd (sep24_start cfg pf req)) (AxiosError (Some payload) msg) \<longrightarrow>
      fst (sep24_start cfg pf req) =
        Sent \<lparr>res_status = 500,
              res_body = JObj [(''error'', JStr (''Failed to start ''
                                              @ template pf (field (req_body req) ''mode''))),
                               (''details'', if truthy payload then payload else JStr msg)]\<rparr>)
 \<and> (last_call_failed pf (snd (sep24_transaction cfg pf req)) (AxiosError (Some payload) msg) \<longrightarrow>
      fst (sep24_transaction cfg pf req) =
        \<lparr>res_status = 500,
         res_body = JObj [(''error'', JStr ''Failed to get transaction status''),
                          (''details'', if truthy payload then payload else JStr msg)]\<rparr>)"
  by (intro conjI impI)
     (simp_all add: get_challenge_failed submit_failed sep24_start_failed
        sep24_transaction_failed catch_response_payload)

theorem rejection_payload_in_details_witness:
  "last_call_failed (demo_platform (JStr demo_toml) demo_rejection)
     (snd (get_challenge demo_cfg (demo_platform (JStr demo_toml) demo_rejection) demo_challenge_request))
     (AxiosError (Some demo_payload) ''Request failed with status code 400'')
   \<and> fst (get_challenge demo_cfg (demo_platform (JStr demo_toml) demo_rejection) demo_challenge_request)
       = \<lparr>res_status = 500,
          res_body = JObj [(''error'', JStr ''Failed to get challenge from anchor''),
                           (''details'', demo_payload)]\<rparr>
   \<and> last_call_failed (demo_platform (JStr demo_toml) demo_rejection)
     (snd (submit demo_cfg (demo_platform (JStr demo_toml) demo_rejection) demo_submit_request))
     (AxiosError (Some demo_payload) ''Request failed with status code 400'')
   \<and> fst (submit demo_cfg (demo_platform (JStr demo_toml) demo_rejection) demo_submit_request)
       = \<lparr>res_status = 500,
          res_body = JObj [(''error'', JStr ''Failed to submit transaction''),
                           (''details'', demo_payload)]\<rparr>
   \<and> last_call_failed (demo_platform (JStr demo_toml) demo_rejection)
     (snd (sep24_start demo_cfg (demo_platform (JStr demo_toml) demo_rejection)
             (demo_start_request (JStr ''deposit'') (JStr ''100''))))
     (AxiosError (Some demo_payload) ''Request failed with status code 400'')
   \<and> fst (sep24_start demo_cfg (demo_platform (JStr demo_toml) demo_rejection)
             (demo_start_request (JStr ''deposit'') (JStr ''100'')))
       = Sent \<lparr>res_status = 500,
               res_body = JObj [(''error'', JStr ''Failed to start deposit''),
                                (''details'', demo_payload)]\<rparr>
   \<and> last_call_failed (demo_platform (JStr demo_toml) demo_rejection)
     (snd (sep24_transaction demo_cfg (demo_platform (JStr demo_toml) demo_rejection) demo_status_request))
     (AxiosError (Some demo_payload) ''Request failed with status code 400'')
   \<and> fst (sep24_transaction demo_cfg (demo_platform (JStr demo_toml) demo_rejection) demo_status_request)
       = \<lparr>res_status = 500,
          res_body = JObj [(''error'', JStr ''Failed to get transaction status''),
                           (''details'', demo_payload)]\<rparr>"
proof -
  let ?pf = "demo_platform (JStr demo_toml) demo_rejection"
  let ?e = "AxiosError (Some demo_payload) ''Request failed with status code 400''"
  let ?start = "demo_start_request (JStr ''deposit'') (JStr ''100'')"
  have t: "truthy demo_payload"
    by (simp add: demo_payload_def)
  have m: "template ?pf (field (req_body ?start) ''mode'') = ''deposit''"
    by (simp add: demo_start_request_def field_def)
  have w1: "last_call_failed ?pf (snd (get_challenge demo_cfg ?pf demo_challenge_request)) ?e"
    by code_simp
  have w2: "last_call_failed ?pf (snd (submit demo_cfg ?pf demo_submit_request)) ?e"
    by code_simp
  have w3: "last_call_failed ?pf (snd (sep24_start demo_cfg ?pf ?start)) ?e"
    by code_simp
  have w4: "last_call_failed ?pf (snd (sep24_transaction demo_cfg ?pf demo_status_request)) ?e"
    by code_simp
  have r1: "fst (get_challenge demo_cfg ?pf demo_challenge_request)
       = \<lparr>res_status = 500,
          res_body = JObj [(''error'', JStr ''Failed to get challenge from anchor''),
                           (''details'', demo_payload)]\<rparr>"
    using rejection_payload_in_details [where pf = ?pf and cfg = demo_cfg
        and req = demo_challenge_request and payload = demo_payload
        and msg = "''Request failed with status code 400''"] w1 t
    by simp
  have r2: "fst (submit demo_cfg ?pf demo_submit_request)
       = \<lparr>res_status = 500,
          res_body = JObj [(''error'', JStr ''Failed to submit transaction''),
                           (''details'', demo_payload)]\<rparr>"
    using rejection_payload_in_details [where pf = ?pf and cfg = demo_cfg
        and req = demo_submit_request and payload = demo_payload
        and msg = "''Request failed with status code 400''"] w2 t
    by simp
  have r3: "fst (sep24_start demo_cfg ?pf ?start)
       = Sent \<lparr>res_status = 500,
               res_body = JObj [(''error'', JStr ''Failed to start deposit''),
                                (''details'', demo_payload)]\<rparr>"
    using rejection_payload_in_details [where pf = ?pf and cfg = demo_cfg
        and req = ?start and payload = demo_payload
        and msg = "''Request failed with status code 400''"] w3 t m
    by simp
  have r4: "fst (sep24_transaction demo_cfg ?pf demo_status_request)
       = \<lparr>res_status = 500,
          res_body = JObj [(''error'', JStr ''Failed to get transaction status''),
                           (''details'', demo_payload)]\<rparr>"
    using rejection_payload_in_details [where pf = ?pf and cfg = demo_cfg
        and req = demo_status_request and payload = demo_payload
        and msg = "''Request failed with status code 400''"] w4 t
    by simp
  from w1 r1 w2 r2 w3 r3 w4 r4 show ?thesis by (intro conjI)
qed

section \<open>Local validation before any remote call (C6)\<close>

text \<open>
  C6: a transfer-initiation request that lacks \<open>mode\<close>, \<open>assetCode\<close> or \<open>account\<close>,
  and a challenge request that lacks \<open>account\<close>, fails at once with the local
  missing-field error (status 400) and makes no remote call at all: no directory fetch
  and no call to the Verifier. A field counts as missing when it is absent or falsy,
  as the handlers test it. On the initiation route the middleware runs first, so a
  request without a bearer header gets the middleware's 401 instead, again without
  any remote call.
\<close>

theorem missing_field_fails_locally:
  "(\<not> truthy (field (req_body req) ''mode'') \<or> \<not> truthy (field (req_body req) ''assetCode'')
      \<or> \<not> truthy (field (req_body req) ''account'') \<longrightarrow>
      start_handler cfg pf tok req
        = (Sent (json_error 400 ''Missing required fields: mode, assetCode, account''), [])
    \<and> sep24_start cfg pf req =
        (case verifyToken req of
           Inl r \<Rightarrow> (Sent r, [])
         | Inr t \<Rightarrow>
             (Sent (json_error 400 ''Missing required fields: mode, assetCode, account''), [])))
 \<and> (\<not> truthy (field (req_body req) ''account'') \<longrightarrow>
      get_challenge cfg pf req = (json_error 400 ''Missing required field: account'', []))"
  by (auto simp: start_handler_def sep24_start_def get_challenge_def Let_def split: sum.splits)

theorem missing_field_fails_locally_witness:
  "\<not> truthy (field [(''mode'', JStr ''deposit''), (''account'', JStr ''GSUBJECT'')] ''assetCode'')
   \<and> sep24_start demo_cfg (demo_platform (JStr demo_toml) demo_session)
        \<lparr>req_authorization = Some ''Bearer jwt'',
         req_body = [(''mode'', JStr ''deposit''), (''account'', JStr ''GSUBJECT'')]\<rparr>
       = (Sent \<lparr>res_status = 400,
           res_body = JObj [(''error'', JStr ''Missing required fields: mode, assetCode, account'')]\<rparr>, [])
   \<and> \<not> truthy (field [(''account'', JStr [])] ''account'')
   \<and> get_challenge demo_cfg (demo_platform (JStr demo_toml) demo_session)
        \<lparr>req_authorization = None, req_body = [(''account'', JStr [])]\<rparr>
       = (\<lparr>res_status = 400,
           res_body = JObj [(''error'', JStr ''Missing required field: account'')]\<rparr>, [])"
proof -
  let ?pf = "demo_platform (JStr demo_toml) demo_session"
  let ?r1 = "\<lparr>req_authorization = Some ''Bearer jwt'',
         req_body = [(''mode'', JStr ''deposit''), (''account'', JStr ''GSUBJECT'')]\<rparr>"
  let ?r2 = "\<lparr>req_authorization = None, req_body = [(''account'', JStr [])]\<rparr>"
  have a: "\<not> truthy (field [(''mode'', JStr ''deposit''), (''account'', JStr ''GSUBJECT'')] ''assetCode'')"
    by (simp add: field_def)
  have b: "\<not> truthy (field [(''account'', JStr [])] ''account'')"
    by (simp add: field_def)
  have v: "verifyToken ?r1 = Inr ''jwt''"
    by code_simp
  have c: "sep24_start demo_cfg ?pf ?r1
       = (Sent \<lparr>res_status = 400,
           res_body = JObj [(''error'', JStr ''Missing required fields: mode, assetCode, account'')]\<rparr>, [])"
    using missing_field_fails_locally [where req = ?r1 and cfg = demo_cfg and pf = ?pf] a v
    by (simp add: json_error_def)
  have d: "get_challenge demo_cfg ?pf ?r2
       = (\<lparr>res_status = 400,
           res_body = JObj [(''error'', JStr ''Missing required field: account'')]\<rparr>, [])"
    using missing_field_fails_locally [where req = ?r2 and cfg = demo_cfg and pf = ?pf] b
    by (simp add: json_error_def)
  from a c b d show ?thesis by (intro conjI)
qed

section \<open>The initiation handler on a valid request\<close>

lemma verifyToken_bearer:
  "verifyToken req = Inr tok \<longleftrightarrow> req_authorization req = Some (''Bearer '' @ tok)"
  by (auto simp: verifyToken_def startsWith_def substring_def prefix_def split: option.splits)


text \<open>
  A request whose mode is a non-empty string and whose other fields are present and
  convertible passes the local checks and the log lines; once the transfer endpoint is
  resolved, the handler makes the info call and then the initiation call.
\<close>

lemma start_handler_resolved:
  assumes "field (req_body req) ''mode'' = JStr m" and "m \<noteq> []"
    and "truthy (field (req_body req) ''assetCode'')"
    and "convertible (field (req_body req) ''assetCode'')"
    and "truthy (field (req_body req) ''account'')"
    and "convertible (field (req_body req) ''account'')"
    and "convertible (field (req_body req) ''amount'')"
    and "axios pf [] (toml_call cfg) = Inr tomlText"
    and "toml_match ''TRANSFER_SERVER_SEP0024'' tomlText = Inr (Some transferServer)"
  shows "start_handler cfg pf tok req =
           (case axios pf [toml_call cfg] (info_call transferServer) of
              Inl e \<Rightarrow> (Sent (catch_response (''Failed to start '' @ m) e),
                        [toml_call cfg, info_call transferServer])
            | Inr info \<Rightarrow>
                (case axios pf [toml_call cfg, info_call transferServer]
                        (interactive_call transferServer (interactive_endpoint (JStr m))
                           (start_params (field (req_body req) ''assetCode'')
                              (field (req_body req) ''account'') (field (req_body req) ''amount''))
                           tok) of
                   Inl e \<Rightarrow>
                     (Sent (catch_response (''Failed to start '' @ m) e),
                      [toml_call cfg, info_call transferServer,
                       interactive_call transferServer (interactive_endpoint (JStr m))
                         (start_params (field (req_body req) ''assetCode'')
                            (field (req_body req) ''account'') (field (req_body req) ''amount''))
                         tok])
                 | Inr data \<Rightarrow>
                     (case start_response data of
                        Inl e \<Rightarrow>
                          (Sent (catch_response (''Failed to start '' @ m) e),
                           [toml_call cfg, info_call transferServer,
                            interactive_call transferServer (interactive_endpoint (JStr m))
                              (start_params (field (req_body req) ''assetCode'')
                                 (field (req_body req) ''account'') (field (req_body req) ''amount''))
                              tok])
                      | Inr r \<Rightarrow>
                          (Sent r,
                           [toml_call cfg, info_call transferServer,
                            interactive_call transferServer (interactive_endpoint (JStr m))
                              (start_params (field (req_body req) ''assetCode'')
                                 (field (req_body req) ''account'') (field (req_body req) ''amount''))
                              tok]))))"
  using assms
  by (simp add: start_handler_def Let_def start_catch_def split: sum.splits)



section \<open>A document in which the name of a key does not occur lacks the key\<close>

lemma split_lines_nonempty: "split_lines doc \<noteq> []"
  by (induction doc) (auto split: list.splits)

lemma hd_split_lines_prefix: "prefix (hd (split_lines doc)) doc"
  by (induction doc) (auto split: list.splits)

lemma split_lines_sublist: "l \<in> set (split_lines doc) \<Longrightarrow> sublist l doc"
proof (induction doc arbitrary: l)
  case Nil
  then show ?case by simp
next
  case (Cons c cs)
  obtain l' ls where s: "split_lines cs = l' # ls"
    using split_lines_nonempty [of cs] by (cases "split_lines cs") auto
  have p: "prefix l' cs"
    using hd_split_lines_prefix [of cs] s by simp
  have rest: "sublist x (c # cs)" if "x \<in> set (split_lines cs)" for x
  proof -
    from that have "sublist x cs" by (rule Cons.IH)
    then show ?thesis by (simp add: sublist_Cons_right)
  qed
  show ?case
  proof (cases "c = newline")
    case True
    with Cons.prems have "l = [] \<or> l \<in> set (split_lines cs)" by simp
    with rest show ?thesis by auto
  next
    case False
    with Cons.prems s have "l = c # l' \<or> l \<in> set ls" by simp
    then show ?thesis
    proof
      assume "l = c # l'"
      with p show ?thesis by (simp add: sublist_Cons_right)
    next
      assume "l \<in> set ls"
      with s have "l \<in> set (split_lines cs)" by simp
      then show ?thesis by (rule rest)
    qed
  qed
qed

lemma publishes_key_includes:
  assumes "publishes_key doc key"
  shows "str_includes doc key"
proof -
  from assms obtain l where l: "l \<in> set (split_lines doc)" and p: "line_publishes key l"
    by (auto simp: publishes_key_def list_ex_iff)
  from p have "prefix key (dropWhile is_space l)"
    by (simp add: line_publishes_def Let_def)
  then have k: "sublist key (dropWhile is_space l)"
    by (rule prefix_imp_sublist)
  have "suffix (dropWhile is_space l) l"
    by (rule suffix_dropWhile)
  then have d: "sublist (dropWhile is_space l) l"
    by (rule suffix_imp_sublist)
  have "sublist l doc"
    using l by (rule split_lines_sublist)
  with k d have "sublist key doc"
    by (meson sublist_order.order_trans)
  then show ?thesis by (simp add: str_includes_iff_sublist)
qed

section \<open>The directory document and the transfer endpoint (C7)\<close>




section \<open>The optional amount (C8)\<close>

text \<open>
  C8, as the specification states it: when an amount is present in an initiate call it
  is passed through to the initiation request unmodified. The handler adds the field
  under the test \<open>if (amount)\<close>, so an amount that is present but falsy is dropped: a
  request with the amount 0 is accepted and leads to an initiation request without
  any amount field.
\<close>

theorem zero_amount_counterexample:
  "field (req_body (demo_start_request (JStr ''deposit'') (JNum 0))) ''amount'' = JNum 0
   \<and> sep24_start demo_cfg (demo_platform (JStr demo_toml) demo_session)
        (demo_start_request (JStr ''deposit'') (JNum 0)) =
     (Sent \<lparr>res_status = 200,
       res_body = JObj [(''id'', JStr ''tx1''), (''url'', JStr ''https://anchor.test/i/tx1''),
                        (''type'', JStr ''interactive_customer_info_needed'')]\<rparr>,
      [AxiosGet ''https://anchor.test/.well-known/stellar.toml'' [] [],
       AxiosGet ''https://anchor.test/sep24/info'' [] [],
       AxiosPost ''https://anchor.test/sep24/transactions/deposit/interactive''
         (JObj [(''asset_code'', JStr ''USDC''), (''account'', JStr ''GSUBJECT'')])
         [(''Authorization'', ''Bearer jwt''), (''Content-Type'', ''application/json'')]])"
proof -
  have a: "field (req_body (demo_start_request (JStr ''deposit'') (JNum 0))) ''amount'' = JNum 0"
    by code_simp
  have b: "sep24_start demo_cfg (demo_platform (JStr demo_toml) demo_session)
        (demo_start_request (JStr ''deposit'') (JNum 0)) =
     (Sent \<lparr>res_status = 200,
       res_body = JObj [(''id'', JStr ''tx1''), (''url'', JStr ''https://anchor.test/i/tx1''),
                        (''type'', JStr ''interactive_customer_info_needed'')]\<rparr>,
      [AxiosGet ''https://anchor.test/.well-known/stellar.toml'' [] [],
       AxiosGet ''https://anchor.test/sep24/info'' [] [],
       AxiosPost ''https://anchor.test/sep24/transactions/deposit/interactive''
         (JObj [(''asset_code'', JStr ''USDC''), (''account'', JStr ''GSUBJECT'')])
         [(''Authorization'', ''Bearer jwt''), (''Content-Type'', ''application/json'')]])"
    by code_simp
  from a b show ?thesis by (intro conjI)
qed

text \<open>
  C8, amended: the body of every initiation request is the object \<open>params\<close>; it
  carries the amount of the request unmodified when that amount is truthy (a non-empty
  string, a non-zero number), and has no amount field at all otherwise (the amount is
  absent, null, the empty string, 0 or false).
\<close>

theorem amount_passed_when_truthy:
  "(truthy amount \<longrightarrow>
      start_params assetCode account amount
        = [(''asset_code'', assetCode), (''account'', account), (''amount'', amount)])
 \<and> (\<not> truthy amount \<longrightarrow>
      start_params assetCode account amount = [(''asset_code'', assetCode), (''account'', account)])
 \<and> (\<forall>u d h. AxiosPost u d h \<in> set (snd (sep24_start cfg pf req)) \<longrightarrow>
      d = JObj (start_params (field (req_body req) ''assetCode'') (field (req_body req) ''account'')
                  (field (req_body req) ''amount'')))"
  by (auto simp: start_params_def sep24_start_def start_handler_def Let_def toml_call_def
                 info_call_def interactive_call_def
           split: sum.splits if_splits option.splits)

theorem amount_passed_when_truthy_witness:
  "truthy (JStr ''100'')
   \<and> start_params (JStr ''USDC'') (JStr ''GSUBJECT'') (JStr ''100'')
       = [(''asset_code'', JStr ''USDC''), (''account'', JStr ''GSUBJECT''), (''amount'', JStr ''100'')]
   \<and> \<not> truthy JUndefined
   \<and> start_params (JStr ''USDC'') (JStr ''GSUBJECT'') JUndefined
       = [(''asset_code'', JStr ''USDC''), (''account'', JStr ''GSUBJECT'')]
   \<and> AxiosPost ''https://anchor.test/sep24/transactions/deposit/interactive''
         (JObj [(''asset_code'', JStr ''USDC''), (''account'', JStr ''GSUBJECT''), (''amount'', JStr ''100'')])
         [(''Authorization'', ''Bearer jwt''), (''Content-Type'', ''application/json'')]
       \<in> set (snd (sep24_start demo_cfg (demo_platform (JStr demo_toml) demo_session)
                      (demo_start_request (JStr ''deposit'') (JStr ''100''))))
   \<and> JObj [(''asset_code'', JStr ''USDC''), (''account'', JStr ''GSUBJECT''), (''amount'', JStr ''100'')]
       = JObj (start_params (field (req_body (demo_start_request (JStr ''deposit'') (JStr ''100''))) ''assetCode'')
                 (field (req_body (demo_start_request (JStr ''deposit'') (JStr ''100''))) ''account'')
                 (field (req_body (demo_start_request (JStr ''deposit'') (JStr ''100''))) ''amount''))"
proof -
  let ?pf = "demo_platform (JStr demo_toml) demo_session"
  let ?req = "demo_start_request (JStr ''deposit'') (JStr ''100'')"
  let ?c = "AxiosPost ''https://anchor.test/sep24/transactions/deposit/interactive''
         (JObj [(''asset_code'', JStr ''USDC''), (''account'', JStr ''GSUBJECT''), (''amount'', JStr ''100'')])
         [(''Authorization'', ''Bearer jwt''), (''Content-Type'', ''application/json'')]"
  note inst = amount_passed_when_truthy [where cfg = demo_cfg and pf = ?pf and req = ?req
      and assetCode = "JStr ''USDC''" and account = "JStr ''GSUBJECT''"]
  have t: "truthy (JStr ''100'')" by simp
  have u: "\<not> truthy JUndefined" by simp
  have a: "start_params (JStr ''USDC'') (JStr ''GSUBJECT'') (JStr ''100'')
       = [(''asset_code'', JStr ''USDC''), (''account'', JStr ''GSUBJECT''), (''amount'', JStr ''100'')]"
    using inst [where amount = "JStr ''100''"] t by blast
  have b: "start_params (JStr ''USDC'') (JStr ''GSUBJECT'') JUndefined
       = [(''asset_code'', JStr ''USDC''), (''account'', JStr ''GSUBJECT'')]"
    using inst [where amount = JUndefined] u by blast
  have tr: "snd (sep24_start demo_cfg ?pf ?req) =
      [AxiosGet ''https://anchor.test/.well-known/stellar.toml'' [] [],
       AxiosGet ''https://anchor.test/sep24/info'' [] [], ?c]"
    by code_simp
  have mem: "?c \<in> set (snd (sep24_start demo_cfg ?pf ?req))"
    unfolding tr by simp
  have c: "JObj [(''asset_code'', JStr ''USDC''), (''account'', JStr ''GSUBJECT''), (''amount'', JStr ''100'')]
       = JObj (start_params (field (req_body ?req) ''assetCode'') (field (req_body ?req) ''account'')
                 (field (req_body ?req) ''amount''))"
    using inst [where amount = JNull] mem by blast
  from t a u b mem c show ?thesis by (intro conjI)
qed

section \<open>Routing by mode (C9)\<close>

text \<open>
  C9, as stated: the initiate operation checks only that \<open>mode\<close> is present, and for
  every mode value other than the exact string \<open>deposit\<close> the request is routed to
  the withdraw endpoint. That holds for strings only. The first log line of the
  handler calls \<open>mode.toUpperCase()\<close>, which a value that is not a string does not
  have: with the mode \<open>true\<close> the handler answers 500 and makes no remote call.
\<close>

theorem boolean_mode_counterexample:
  "truthy (field (req_body (demo_start_request (JBool True) (JStr ''100''))) ''mode'')
   \<and> field (req_body (demo_start_request (JBool True) (JStr ''100''))) ''mode'' \<noteq> JStr ''deposit''
   \<and> sep24_start demo_cfg (demo_platform (JStr demo_toml) demo_session)
        (demo_start_request (JBool True) (JStr ''100'')) =
     (Sent \<lparr>res_status = 500,
       res_body = JObj [(''error'', JStr ''Failed to start true''),
                        (''details'', JStr ''mode.toUpperCase is not a function'')]\<rparr>,
      [])"
proof -
  have a: "truthy (field (req_body (demo_start_request (JBool True) (JStr ''100''))) ''mode'')"
    by code_simp
  have a': "field (req_body (demo_start_request (JBool True) (JStr ''100''))) ''mode'' \<noteq> JStr ''deposit''"
    by code_simp
  have b: "sep24_start demo_cfg (demo_platform (JStr demo_toml) demo_session)
        (demo_start_request (JBool True) (JStr ''100'')) =
     (Sent \<lparr>res_status = 500,
       res_body = JObj [(''error'', JStr ''Failed to start true''),
                        (''details'', JStr ''mode.toUpperCase is not a function'')]\<rparr>,
      [])"
    by code_simp
  from a a' b show ?thesis by (intro conjI)
qed

text \<open>
  C9, amended: the initiate operation checks only that \<open>mode\<close> is present, not which
  string it is. For every mode that is a non-empty string other than \<open>deposit\<close>, a
  request with a bearer header, with asset code and account present, and with asset
  code, amount and account convertible to strings (the handler logs them before it
  makes any call; a JSON object with a \<open>toString\<close> entry is not), makes exactly three
  remote calls once the directory document gives the transfer endpoint and the info
  call is answered: the directory fetch, the info call, and the initiation posted to
  the withdraw interactive endpoint.
\<close>

theorem string_mode_routes_to_withdraw:
  assumes "field (req_body req) ''mode'' = JStr m" and "m \<noteq> []" and "m \<noteq> ''deposit''"
    and "req_authorization req = Some (''Bearer '' @ tok)"
    and "truthy (field (req_body req) ''assetCode'')"
    and "convertible (field (req_body req) ''assetCode'')"
    and "truthy (field (req_body req) ''account'')"
    and "convertible (field (req_body req) ''account'')"
    and "convertible (field (req_body req) ''amount'')"
    and "axios pf [] (toml_call cfg) = Inr (JStr doc)"
    and "regex_match ''TRANSFER_SERVER_SEP0024'' doc = Some transferServer"
    and "axios pf [toml_call cfg] (info_call transferServer) = Inr info"
  shows "snd (sep24_start cfg pf req) =
           [toml_call cfg, info_call transferServer,
            interactive_call transferServer ''/transactions/withdraw/interactive''
              (start_params (field (req_body req) ''assetCode'') (field (req_body req) ''account'')
                 (field (req_body req) ''amount'')) tok]"
proof -
  have v: "verifyToken req = Inr tok"
    using assms(4) by (simp add: verifyToken_bearer)
  have s: "toml_match ''TRANSFER_SERVER_SEP0024'' (JStr doc) = Inr (Some transferServer)"
    using assms(11) by simp
  have e: "interactive_endpoint (JStr m) = ''/transactions/withdraw/interactive''"
    using assms(3) by (simp add: interactive_endpoint_def)
  show ?thesis
    using start_handler_resolved [OF assms(1,2) assms(5-9) assms(10) s, of tok] assms(12) v
    by (simp add: sep24_start_def e split: sum.splits)
qed

theorem string_mode_routes_to_withdraw_witness:
  "snd (sep24_start demo_cfg (demo_platform (JStr demo_toml) demo_session)
          (demo_start_request (JStr ''refund'') (JStr ''100''))) =
     [AxiosGet ''https://anchor.test/.well-known/stellar.toml'' [] [],
      AxiosGet ''https://anchor.test/sep24/info'' [] [],
      AxiosPost ''https://anchor.test/sep24/transactions/withdraw/interactive''
        (JObj [(''asset_code'', JStr ''USDC''), (''account'', JStr ''GSUBJECT''), (''amount'', JStr ''100'')])
        [(''Authorization'', ''Bearer jwt''), (''Content-Type'', ''application/json'')]]"
proof -
  let ?pf = "demo_platform (JStr demo_toml) demo_session"
  let ?req = "demo_start_request (JStr ''refund'') (JStr ''100'')"
  have m: "field (req_body ?req) ''mode'' = JStr ''refund''"
    by (simp add: demo_start_request_def field_def)
  have ne: "''refund'' \<noteq> []" "''refund'' \<noteq> ''deposit''"
    by simp_all
  have h: "req_authorization ?req = Some (''Bearer '' @ ''jwt'')"
    by (simp add: demo_start_request_def)
  have f: "truthy (field (req_body ?req) ''assetCode'')"
      "convertible (field (req_body ?req) ''assetCode'')"
      "truthy (field (req_body ?req) ''account'')"
      "convertible (field (req_body ?req) ''account'')"
      "convertible (field (req_body ?req) ''amount'')"
    by (simp_all add: demo_start_request_def field_def)
  have s: "regex_match ''TRANSFER_SERVER_SEP0024'' demo_toml = Some ''https://anchor.test/sep24''"
    by code_simp
  have i: "axios ?pf [toml_call demo_cfg] (info_call ''https://anchor.test/sep24'') = Inr (JObj [])"
    by code_simp
  have c: "interactive_call ''https://anchor.test/sep24'' ''/transactions/withdraw/interactive''
              (start_params (field (req_body ?req) ''assetCode'') (field (req_body ?req) ''account'')
                 (field (req_body ?req) ''amount'')) ''jwt''
         = AxiosPost ''https://anchor.test/sep24/transactions/withdraw/interactive''
        (JObj [(''asset_code'', JStr ''USDC''), (''account'', JStr ''GSUBJECT''), (''amount'', JStr ''100'')])
        [(''Authorization'', ''Bearer jwt''), (''Content-Type'', ''application/json'')]"
    by code_simp
  have g: "info_call ''https://anchor.test/sep24'' = AxiosGet ''https://anchor.test/sep24/info'' [] []"
    by (simp add: info_call_def)
  show ?thesis
    using string_mode_routes_to_withdraw [OF m ne h f demo_axios_toml s i]
    by (simp only: c g demo_toml_call)
qed

section \<open>The bearer gate (C10)\<close>

lemma start_response_status: "start_response data = Inr r \<Longrightarrow> res_status r = 200"
  by (auto simp: start_response_def json_ok_def split: sum.splits)

lemma status_response_status: "status_response data = Inr r \<Longrightarrow> res_status r = 200"
  by (auto simp: status_response_def json_ok_def split: sum.splits)

lemma start_handler_not_401:
  "fst (start_handler cfg pf tok req) = Sent r \<Longrightarrow> res_status r \<noteq> 401"
  by (auto simp: start_handler_def Let_def start_catch_def json_error_def catch_response_def
           dest: start_response_status split: sum.splits option.splits if_splits)

lemma transaction_handler_not_401: "res_status (fst (transaction_handler cfg pf tok req)) \<noteq> 401"
  by (auto simp: transaction_handler_def Let_def json_error_def catch_response_def
           dest: status_response_status split: sum.splits option.splits)

lemma start_handler_headers:
  "c \<in> set (snd (start_handler cfg pf tok req)) \<Longrightarrow>
     (is_post c \<longrightarrow> map_of (call_headers c) ''Authorization'' = Some (''Bearer '' @ tok))
   \<and> (\<not> is_post c \<longrightarrow> call_headers c = [])"
  by (auto simp: start_handler_def Let_def toml_call_def info_call_def interactive_call_def
           split: sum.splits option.splits if_splits)

lemma transaction_handler_headers:
  "c \<in> set (snd (transaction_handler cfg pf tok req)) \<Longrightarrow>
     c = toml_call cfg \<or> map_of (call_headers c) ''Authorization'' = Some (''Bearer '' @ tok)"
  by (auto simp: transaction_handler_def Let_def status_call_def
           split: sum.splits option.splits if_splits)

text \<open>
  A status query whose id is present and convertible, with the transfer endpoint
  resolved, makes the directory fetch and then the authenticated status call.
\<close>

lemma transaction_handler_resolved:
  assumes "truthy (field (req_body req) ''id'')" and "convertible (field (req_body req) ''id'')"
    and "axios pf [] (toml_call cfg) = Inr tomlText"
    and "toml_match ''TRANSFER_SERVER_SEP0024'' tomlText = Inr (Some transferServer)"
  shows "snd (transaction_handler cfg pf tok req) =
           [toml_call cfg, status_call transferServer (field (req_body req) ''id'') tok]"
  using assms by (simp add: transaction_handler_def Let_def split: sum.splits)

lemma start_handler_resolved_calls:
  assumes "field (req_body req) ''mode'' = JStr m" and "m \<noteq> []"
    and "truthy (field (req_body req) ''assetCode'')"
    and "convertible (field (req_body req) ''assetCode'')"
    and "truthy (field (req_body req) ''account'')"
    and "convertible (field (req_body req) ''account'')"
    and "convertible (field (req_body req) ''amount'')"
    and "axios pf [] (toml_call cfg) = Inr tomlText"
    and "toml_match ''TRANSFER_SERVER_SEP0024'' tomlText = Inr (Some transferServer)"
    and "axios pf [toml_call cfg] (info_call transferServer) = Inr info"
  shows "snd (start_handler cfg pf tok req) =
           [toml_call cfg, info_call transferServer,
            interactive_call transferServer (interactive_endpoint (JStr m))
              (start_params (field (req_body req) ''assetCode'') (field (req_body req) ''account'')
                 (field (req_body req) ''amount'')) tok]"
  using start_handler_resolved [OF assms(1-9), of tok] assms(10)
  by (simp split: sum.splits)

text \<open>
  C10: both authenticated routes, initiation and status query, answer 401 with the
  authorization error and make no remote call unless the Authorization header is
  present and begins with \<open>Bearer \<close>. With such a header the handler runs with the
  rest of the header as its token, whatever that text is; the answer is then never
  the 401, and the token is not inspected: it only comes back, behind the same
  prefix, as the Authorization header of the authenticated calls. So the header of
  the request is forwarded unchanged: an initiation with a valid body, once the
  directory document gives the transfer endpoint and the info call is answered, posts
  to the interactive endpoint with the Authorization header of the request, and a
  status query with an id, once the transfer endpoint is given, sends its query with
  the Authorization header of the request. The calls without that header are the
  directory fetch and the info call, which carry no header.
\<close>

theorem bearer_gate:
  "((\<forall>t. req_authorization req \<noteq> Some (''Bearer '' @ t)) \<longrightarrow>
       sep24_start cfg pf req
         = (Sent (json_error 401 ''Missing or invalid Authorization header''), [])
     \<and> sep24_transaction cfg pf req
         = (json_error 401 ''Missing or invalid Authorization header'', []))
 \<and> (req_authorization req = Some h \<and> h = ''Bearer '' @ tok \<longrightarrow>
       sep24_start cfg pf req = start_handler cfg pf tok req
     \<and> sep24_transaction cfg pf req = transaction_handler cfg pf tok req
     \<and> (\<forall>r. fst (sep24_start cfg pf req) = Sent r \<longrightarrow> res_status r \<noteq> 401)
     \<and> res_status (fst (sep24_transaction cfg pf req)) \<noteq> 401
     \<and> (\<forall>c \<in> set (snd (sep24_start cfg pf req)).
           if is_post c then map_of (call_headers c) ''Authorization'' = Some h
           else call_headers c = [])
     \<and> (\<forall>c \<in> set (snd (sep24_transaction cfg pf req)).
           c = toml_call cfg \<or> map_of (call_headers c) ''Authorization'' = Some h)
     \<and> (axios pf [] (toml_call cfg) = Inr (JStr doc)
          \<and> regex_match ''TRANSFER_SERVER_SEP0024'' doc = Some transferServer \<longrightarrow>
          (field (req_body req) ''mode'' = JStr m \<and> m \<noteq> []
             \<and> truthy (field (req_body req) ''assetCode'')
             \<and> convertible (field (req_body req) ''assetCode'')
             \<and> truthy (field (req_body req) ''account'')
             \<and> convertible (field (req_body req) ''account'')
             \<and> convertible (field (req_body req) ''amount'')
             \<and> axios pf [toml_call cfg] (info_call transferServer) = Inr info \<longrightarrow>
             snd (sep24_start cfg pf req) =
               [AxiosGet (tomlUrl cfg) [] [],
                AxiosGet (transferServer @ ''/info'') [] [],
                AxiosPost (transferServer @ interactive_endpoint (JStr m))
                  (JObj (start_params (field (req_body req) ''assetCode'')
                           (field (req_body req) ''account'') (field (req_body req) ''amount'')))
                  [(''Authorization'', h), (''Content-Type'', ''application/json'')]])
        \<and> (truthy (field (req_body req) ''id'') \<and> convertible (field (req_body req) ''id'') \<longrightarrow>
             snd (sep24_transaction cfg pf req) =
               [AxiosGet (tomlUrl cfg) [] [],
                AxiosGet (transferServer @ ''/transaction'') [(''id'', field (req_body req) ''id'')]
                  [(''Authorization'', h)]])))"
proof (intro conjI impI)
  assume a: "\<forall>t. req_authorization req \<noteq> Some (''Bearer '' @ t)"
  have v: "verifyToken req = Inl (json_error 401 ''Missing or invalid Authorization header'')"
  proof (cases "verifyToken req")
    case (Inl r)
    then show ?thesis
      by (auto simp: verifyToken_def split: option.splits if_splits)
  next
    case (Inr t)
    with a show ?thesis
      by (simp add: verifyToken_bearer)
  qed
  show "sep24_start cfg pf req
          = (Sent (json_error 401 ''Missing or invalid Authorization header''), [])"
    by (simp add: sep24_start_def v)
  show "sep24_transaction cfg pf req
          = (json_error 401 ''Missing or invalid Authorization header'', [])"
    by (simp add: sep24_transaction_def v)
next
  assume b: "req_authorization req = Some h \<and> h = ''Bearer '' @ tok"
  then have h: "h = ''Bearer '' @ tok" and v: "verifyToken req = Inr tok"
    by (simp_all add: verifyToken_bearer)
  show s: "sep24_start cfg pf req = start_handler cfg pf tok req"
    by (simp add: sep24_start_def v)
  show t: "sep24_transaction cfg pf req = transaction_handler cfg pf tok req"
    by (simp add: sep24_transaction_def v)
  show "\<forall>r. fst (sep24_start cfg pf req) = Sent r \<longrightarrow> res_status r \<noteq> 401"
    unfolding s using start_handler_not_401 by blast
  show "res_status (fst (sep24_transaction cfg pf req)) \<noteq> 401"
    unfolding t by (rule transaction_handler_not_401)
  show "\<forall>c \<in> set (snd (sep24_start cfg pf req)).
           if is_post c then map_of (call_headers c) ''Authorization'' = Some h
           else call_headers c = []"
    unfolding s h using start_handler_headers by auto
  show "\<forall>c \<in> set (snd (sep24_transaction cfg pf req)).
           c = toml_call cfg \<or> map_of (call_headers c) ''Authorization'' = Some h"
    unfolding t h using transaction_handler_headers by auto
  {
    assume d: "axios pf [] (toml_call cfg) = Inr (JStr doc)
          \<and> regex_match ''TRANSFER_SERVER_SEP0024'' doc = Some transferServer"
    then have d1: "axios pf [] (toml_call cfg) = Inr (JStr doc)"
      and d2: "toml_match ''TRANSFER_SERVER_SEP0024'' (JStr doc) = Inr (Some transferServer)"
      by simp_all
    {
      assume f: "field (req_body req) ''mode'' = JStr m \<and> m \<noteq> []
             \<and> truthy (field (req_body req) ''assetCode'')
             \<and> convertible (field (req_body req) ''assetCode'')
             \<and> truthy (field (req_body req) ''account'')
             \<and> convertible (field (req_body req) ''account'')
             \<and> convertible (field (req_body req) ''amount'')
             \<and> axios pf [toml_call cfg] (info_call transferServer) = Inr info"
      then have "snd (start_handler cfg pf tok req) =
           [toml_call cfg, info_call transferServer,
            interactive_call transferServer (interactive_endpoint (JStr m))
              (start_params (field (req_body req) ''assetCode'') (field (req_body req) ''account'')
                 (field (req_body req) ''amount'')) tok]"
        using start_handler_resolved_calls [OF _ _ _ _ _ _ _ d1 d2, of req m info tok] by blast
      then show "snd (sep24_start cfg pf req) =
               [AxiosGet (tomlUrl cfg) [] [],
                AxiosGet (transferServer @ ''/info'') [] [],
                AxiosPost (transferServer @ interactive_endpoint (JStr m))
                  (JObj (start_params (field (req_body req) ''assetCode'')
                           (field (req_body req) ''account'') (field (req_body req) ''amount'')))
                  [(''Authorization'', h), (''Content-Type'', ''application/json'')]]"
        unfolding s h by (simp add: toml_call_def info_call_def interactive_call_def)
    }
    {
      assume g: "truthy (field (req_body req) ''id'') \<and> convertible (field (req_body req) ''id'')"
      then have "snd (transaction_handler cfg pf tok req) =
           [toml_call cfg, status_call transferServer (field (req_body req) ''id'') tok]"
        using transaction_handler_resolved [OF _ _ d1 d2, of req tok] by blast
      then show "snd (sep24_transaction cfg pf req) =
               [AxiosGet (tomlUrl cfg) [] [],
                AxiosGet (transferServer @ ''/transaction'') [(''id'', field (req_body req) ''id'')]
                  [(''Authorization'', h)]]"
        unfolding t h by (simp add: toml_call_def status_call_def)
    }
  }
qed

theorem bearer_gate_witness:
  "sep24_start demo_cfg (demo_platform (JStr demo_toml) demo_session)
       \<lparr>req_authorization = Some ''Basic dXNlcg=='', req_body = [(''mode'', JStr ''deposit'')]\<rparr>
     = (Sent \<lparr>res_status = 401,
         res_body = JObj [(''error'', JStr ''Missing or invalid Authorization header'')]\<rparr>, [])
   \<and> sep24_transaction demo_cfg (demo_platform (JStr demo_toml) demo_session)
       \<lparr>req_authorization = Some ''Basic dXNlcg=='', req_body = [(''mode'', JStr ''deposit'')]\<rparr>
     = (\<lparr>res_status = 401,
         res_body = JObj [(''error'', JStr ''Missing or invalid Authorization header'')]\<rparr>, [])
   \<and> req_authorization (demo_start_request (JStr ''deposit'') (JStr ''100'')) = Some ''Bearer jwt''
   \<and> snd (sep24_start demo_cfg (demo_platform (JStr demo_toml) demo_session)
            (demo_start_request (JStr ''deposit'') (JStr ''100''))) =
       [AxiosGet ''https://anchor.test/.well-known/stellar.toml'' [] [],
        AxiosGet ''https://anchor.test/sep24/info'' [] [],
        AxiosPost ''https://anchor.test/sep24/transactions/deposit/interactive''
          (JObj [(''asset_code'', JStr ''USDC''), (''account'', JStr ''GSUBJECT''),
                 (''amount'', JStr ''100'')])
          [(''Authorization'', ''Bearer jwt''), (''Content-Type'', ''application/json'')]]
   \<and> req_authorization demo_status_request = Some ''Bearer jwt''
   \<and> snd (sep24_transaction demo_cfg (demo_platform (JStr demo_toml) demo_status)
            demo_status_request) =
       [AxiosGet ''https://anchor.test/.well-known/stellar.toml'' [] [],
        AxiosGet ''https://anchor.test/sep24/transaction'' [(''id'', JStr ''tx1'')]
          [(''Authorization'', ''Bearer jwt'')]]
   \<and> res_status (fst (sep24_transaction demo_cfg (demo_platform (JStr demo_toml) demo_status)
        demo_status_request)) \<noteq> 401"
proof -
  let ?pf = "demo_platform (JStr demo_toml) demo_session"
  let ?pf' = "demo_platform (JStr demo_toml) demo_status"
  let ?bad = "\<lparr>req_authorization = Some ''Basic dXNlcg=='', req_body = [(''mode'', JStr ''deposit'')]\<rparr>"
  let ?req = "demo_start_request (JStr ''deposit'') (JStr ''100'')"
  have h1: "\<forall>t. req_authorization ?bad \<noteq> Some (''Bearer '' @ t)"
    by simp
  have h2: "req_authorization ?req = Some ''Bearer jwt'' \<and> ''Bearer jwt'' = ''Bearer '' @ ''jwt''"
    by (simp add: demo_start_request_def)
  have h3: "req_authorization demo_status_request = Some ''Bearer jwt''
            \<and> ''Bearer jwt'' = ''Bearer '' @ ''jwt''"
    by (simp add: demo_status_request_def)
  have s: "regex_match ''TRANSFER_SERVER_SEP0024'' demo_toml = Some ''https://anchor.test/sep24''"
    by code_simp
  have d: "axios ?pf [] (toml_call demo_cfg) = Inr (JStr demo_toml)
           \<and> regex_match ''TRANSFER_SERVER_SEP0024'' demo_toml = Some ''https://anchor.test/sep24''"
    using demo_axios_toml s by simp
  have d': "axios ?pf' [] (toml_call demo_cfg) = Inr (JStr demo_toml)
           \<and> regex_match ''TRANSFER_SERVER_SEP0024'' demo_toml = Some ''https://anchor.test/sep24''"
    using demo_axios_toml s by simp
  have i: "axios ?pf [toml_call demo_cfg] (info_call ''https://anchor.test/sep24'') = Inr (JObj [])"
    by code_simp
  have f: "field (req_body ?req) ''mode'' = JStr ''deposit'' \<and> ''deposit'' \<noteq> []
             \<and> truthy (field (req_body ?req) ''assetCode'')
             \<and> convertible (field (req_body ?req) ''assetCode'')
             \<and> truthy (field (req_body ?req) ''account'')
             \<and> convertible (field (req_body ?req) ''account'')
             \<and> convertible (field (req_body ?req) ''amount'')
             \<and> axios ?pf [toml_call demo_cfg] (info_call ''https://anchor.test/sep24'') = Inr (JObj [])"
    using i by (simp add: demo_start_request_def field_def)
  have g: "truthy (field (req_body demo_status_request) ''id'')
           \<and> convertible (field (req_body demo_status_request) ''id'')"
    by (simp add: demo_status_request_def field_def)
  have u: "tomlUrl demo_cfg = ''https://anchor.test/.well-known/stellar.toml''"
    by code_simp
  have e: "''https://anchor.test/sep24'' @ interactive_endpoint (JStr ''deposit'')
             = ''https://anchor.test/sep24/transactions/deposit/interactive''"
    by code_simp
  have p: "start_params (field (req_body ?req) ''assetCode'') (field (req_body ?req) ''account'')
             (field (req_body ?req) ''amount'')
           = [(''asset_code'', JStr ''USDC''), (''account'', JStr ''GSUBJECT''),
              (''amount'', JStr ''100'')]"
    by code_simp
  have q: "field (req_body demo_status_request) ''id'' = JStr ''tx1''"
    by code_simp
  from bearer_gate [where req = ?bad and cfg = demo_cfg and pf = ?pf] h1
  have a: "sep24_start demo_cfg ?pf ?bad
     = (Sent \<lparr>res_status = 401,
         res_body = JObj [(''error'', JStr ''Missing or invalid Authorization header'')]\<rparr>, [])"
    and b: "sep24_transaction demo_cfg ?pf ?bad
     = (\<lparr>res_status = 401,
         res_body = JObj [(''error'', JStr ''Missing or invalid Authorization header'')]\<rparr>, [])"
    by (simp_all add: json_error_def)
  from bearer_gate [where req = ?req and cfg = demo_cfg and pf = ?pf and h = "''Bearer jwt''"
      and tok = "''jwt''" and doc = demo_toml and transferServer = "''https://anchor.test/sep24''"
      and m = "''deposit''" and info = "JObj []"] h2 d f
  have "snd (sep24_start demo_cfg ?pf ?req) =
               [AxiosGet (tomlUrl demo_cfg) [] [],
                AxiosGet (''https://anchor.test/sep24'' @ ''/info'') [] [],
                AxiosPost (''https://anchor.test/sep24'' @ interactive_endpoint (JStr ''deposit''))
                  (JObj (start_params (field (req_body ?req) ''assetCode'')
                           (field (req_body ?req) ''account'') (field (req_body ?req) ''amount'')))
                  [(''Authorization'', ''Bearer jwt''), (''Content-Type'', ''application/json'')]]"
    by blast
  then have c: "snd (sep24_start demo_cfg ?pf ?req) =
       [AxiosGet ''https://anchor.test/.well-known/stellar.toml'' [] [],
        AxiosGet ''https://anchor.test/sep24/info'' [] [],
        AxiosPost ''https://anchor.test/sep24/transactions/deposit/interactive''
          (JObj [(''asset_code'', JStr ''USDC''), (''account'', JStr ''GSUBJECT''),
                 (''amount'', JStr ''100'')])
          [(''Authorization'', ''Bearer jwt''), (''Content-Type'', ''application/json'')]]"
    unfolding u e p by simp
  note inst = bearer_gate [where req = demo_status_request and cfg = demo_cfg and pf = ?pf'
      and h = "''Bearer jwt''" and tok = "''jwt''" and doc = demo_toml
      and transferServer = "''https://anchor.test/sep24''"]
  from inst h3 d' g
  have "snd (sep24_transaction demo_cfg ?pf' demo_status_request) =
               [AxiosGet (tomlUrl demo_cfg) [] [],
                AxiosGet (''https://anchor.test/sep24'' @ ''/transaction'')
                  [(''id'', field (req_body demo_status_request) ''id'')]
                  [(''Authorization'', ''Bearer jwt'')]]"
    by blast
  then have t: "snd (sep24_transaction demo_cfg ?pf' demo_status_request) =
       [AxiosGet ''https://anchor.test/.well-known/stellar.toml'' [] [],
        AxiosGet ''https://anchor.test/sep24/transaction'' [(''id'', JStr ''tx1'')]
          [(''Authorization'', ''Bearer jwt'')]]"
    unfolding u q by simp
  from inst h3
  have n: "res_status (fst (sep24_transaction demo_cfg ?pf' demo_status_request)) \<noteq> 401"
    by blast
  from h2 h3 have k2: "req_authorization ?req = Some ''Bearer jwt''"
    and k3: "req_authorization demo_status_request = Some ''Bearer jwt''"
    by blast+
  from a b k2 c k3 t n show ?thesis by (intro conjI)
qed

end
